theory Spec2Isabelle
  imports Complex_Main
begin

section \<open>Named stochastic sampling in the Pyro introduction notebook\<close>

text \<open>
  The notebook \<^verbatim>\<open>1. An-introduction-to-models-in-Pyro.py\<close> defines four stochastic
  functions (\<^verbatim>\<open>weather\<close>, \<^verbatim>\<open>ice_cream_sales\<close>, \<^verbatim>\<open>geometric\<close>,
  \<^verbatim>\<open>make_normal_normal\<close> with its helper \<^verbatim>\<open>normal_product\<close>) on top of the
  external library calls \<^verbatim>\<open>pyro.sample\<close>, \<^verbatim>\<open>pyro.distributions.Bernoulli\<close>,
  \<^verbatim>\<open>pyro.distributions.Normal\<close> and \<^verbatim>\<open>pyro.set_rng_seed\<close>.

  Python floats and the scalar tensors returned by the library are modelled as reals
  (rounding is not modelled); Python's unbounded integers are \<^typ>\<open>int\<close>; strings are
  \<^typ>\<open>string\<close>. The process-wide random source is explicit state: a stream of raw
  draws together with the index of the next draw. Exceptions are values of
  \<open>error + 'a\<close>. The recursion of \<^verbatim>\<open>geometric\<close> keeps one interpreter frame per
  failed trial; the number of frames that the interpreter still admits is a parameter,
  and a call beyond it raises RecursionError.
\<close>

subsection \<open>The external library: distributions, random source, named sampler\<close>

text \<open>
  Modelled from the spec: the data of the external library, which is not part of the
  repository. The errors are the spec's InvalidParameter and DuplicateName, and Python's
  KeyError for a dictionary lookup and RecursionError for a call beyond the
  interpreter's recursion limit; a distribution specification is a family with its
  parameters; a site is one entry of a trace (name, distribution, drawn value); the
  state holds the process-wide random source (a stream of raw draws and the index of the
  next one), the trace of the current invocation and the policy for duplicate names.
\<close>

datatype error = InvalidParameter | DuplicateName | KeyError | RecursionError

datatype dist = Bernoulli_dist real | Normal_dist real real

record site =
  name :: string
  fn :: dist
  val :: real

record state =
  source :: "nat \<Rightarrow> real"
  pos :: nat
  trace :: "site list"
  strict :: bool

type_synonym 'a result = "error + ('a \<times> state)"

text \<open>
  Modelled from the spec: the distribution constructors of the external library
  (\<^verbatim>\<open>pyro.distributions.Bernoulli\<close>, \<^verbatim>\<open>pyro.distributions.Normal\<close>), which are not
  part of the repository. The spec gives the valid domains (Bernoulli probability in
  [0,1], Normal scale > 0) and says that a construction outside them fails with
  InvalidParameter.
\<close>

definition Bernoulli :: "real \<Rightarrow> error + dist" where
  "Bernoulli p = (if 0 \<le> p \<and> p \<le> 1 then Inr (Bernoulli_dist p) else Inl InvalidParameter)"

definition Normal :: "real \<Rightarrow> real \<Rightarrow> error + dist" where
  "Normal loc scale = (if 0 < scale then Inr (Normal_dist loc scale) else Inl InvalidParameter)"

text \<open>
  Modelled from the spec: how the external library turns one raw draw of the random
  source into a value of the distribution's support. A Bernoulli draw compares a raw
  uniform number of [0,1) with the probability and is 1.0 or 0.0; a Normal draw is
  \<open>loc + eps * scale\<close> for a raw standard-normal number \<open>eps\<close>.
\<close>

fun draw :: "dist \<Rightarrow> real \<Rightarrow> real" where
  "draw (Bernoulli_dist p) u = (if u < p then 1 else 0)"
| "draw (Normal_dist loc scale) eps = loc + eps * scale"

definition names :: "site list \<Rightarrow> string list" where
  "names tr = map name tr"

text \<open>
  Modelled from the spec: the named sampler \<^verbatim>\<open>pyro.sample(name, distribution)\<close> of the
  external library. It takes the next raw draw of the random source, turns it into a
  value of the distribution, records the site (name, distribution, value) at the end of
  the current trace and returns the value. The spec leaves open what a name that is
  already in the current trace does: with \<open>strict\<close> set the call fails with
  DuplicateName, otherwise the draw is taken and recorded like any other.
\<close>

definition sample :: "string \<Rightarrow> dist \<Rightarrow> state \<Rightarrow> real result" where
  "sample nm d s =
     (if strict s \<and> nm \<in> set (names (trace s)) then Inl DuplicateName
      else let v = draw d (source s (pos s))
           in Inr (v, s\<lparr>pos := pos s + 1,
                        trace := trace s @ [\<lparr>name = nm, fn = d, val = v\<rparr>]\<rparr>))"

text \<open>
  Modelled from the spec: \<^verbatim>\<open>pyro.set_rng_seed(seed)\<close>, the deterministic seeding
  operation of the process-wide random source. The generator \<open>gen\<close> of the external
  library (the stream of raw draws that a seed determines) is a parameter.
\<close>

definition set_rng_seed :: "(int \<Rightarrow> nat \<Rightarrow> real) \<Rightarrow> int \<Rightarrow> state \<Rightarrow> state" where
  "set_rng_seed gen seed s = s\<lparr>source := gen seed, pos := 0\<rparr>"

text \<open>
  Modelled from the spec: a trace is created fresh at the start of each top-level
  invocation of a stochastic function.
\<close>

definition fresh :: "state \<Rightarrow> state" where
  "fresh s = s\<lparr>trace := []\<rparr>"

subsection \<open>Python built-ins used by the notebook\<close>

text \<open>Decimal rendering of an integer, as \<^verbatim>\<open>"{}".format(t)\<close> prints it.\<close>

definition digit :: "nat \<Rightarrow> char" where
  "digit d = char_of (48 + d)"

function str_nat :: "nat \<Rightarrow> string" where
  "str_nat n = (if n < 10 then [digit n] else str_nat (n div 10) @ [digit (n mod 10)])"
  by pat_completeness auto
termination
  by (relation "measure (\<lambda>n. n)") auto

definition str_int :: "int \<Rightarrow> string" where
  "str_int i = (if i < 0 then CHR ''-'' # str_nat (nat (- i)) else str_nat (nat i))"

text \<open>A dictionary literal is an association list; a missing key raises KeyError.\<close>

definition getitem :: "(string \<times> real) list \<Rightarrow> string \<Rightarrow> error + real" where
  "getitem d k = (case map_of d k of None \<Rightarrow> Inl KeyError | Some v \<Rightarrow> Inr v)"

subsection \<open>The stochastic functions of the notebook\<close>

text \<open>\<^verbatim>\<open>weather\<close> (lines 87-96): the version built on \<^verbatim>\<open>pyro.sample\<close>.\<close>

definition weather :: "state \<Rightarrow> (string \<times> real) result" where
  "weather s =
     (case Bernoulli 0.3 of Inl e \<Rightarrow> Inl e | Inr d \<Rightarrow>
      case sample ''cloudy'' d s of Inl e \<Rightarrow> Inl e | Inr (c, s1) \<Rightarrow>
      let cloudy = (if c = 1.0 then ''cloudy'' else ''sunny'') in
      case getitem [(''cloudy'', 55.0), (''sunny'', 75.0)] cloudy of Inl e \<Rightarrow> Inl e | Inr mean_temp \<Rightarrow>
      case getitem [(''cloudy'', 10.0), (''sunny'', 15.0)] cloudy of Inl e \<Rightarrow> Inl e | Inr scale_temp \<Rightarrow>
      case Normal mean_temp scale_temp of Inl e \<Rightarrow> Inl e | Inr d2 \<Rightarrow>
      case sample ''temp'' d2 s1 of Inl e \<Rightarrow> Inl e | Inr (temp, s2) \<Rightarrow>
      Inr ((cloudy, temp), s2))"

text \<open>
  The loop \<^verbatim>\<open>for _ in range(5): print(weather())\<close> (lines 99-100), for any number of
  rounds: every round is a top-level invocation of \<^verbatim>\<open>weather\<close>; the printed values
  are collected in order.
\<close>

fun weather_loop :: "nat \<Rightarrow> state \<Rightarrow> (string \<times> real) list result" where
  "weather_loop 0 s = Inr ([], s)"
| "weather_loop (Suc n) s =
     (case weather (fresh s) of Inl e \<Rightarrow> Inl e | Inr (w, s1) \<Rightarrow>
      case weather_loop n s1 of Inl e \<Rightarrow> Inl e | Inr (ws, s2) \<Rightarrow> Inr (w # ws, s2))"

text \<open>\<^verbatim>\<open>ice_cream_sales\<close> (lines 107-111).\<close>

definition ice_cream_sales :: "state \<Rightarrow> real result" where
  "ice_cream_sales s =
     (case weather s of Inl e \<Rightarrow> Inl e | Inr ((cloudy, temp), s1) \<Rightarrow>
      let expected_sales = (if cloudy = ''sunny'' \<and> temp > 80.0 then 200.0 else 50.0) in
      case Normal expected_sales 10.0 of Inl e \<Rightarrow> Inl e | Inr d \<Rightarrow>
      case sample ''ice_cream'' d s1 of Inl e \<Rightarrow> Inl e | Inr (ice_cream, s2) \<Rightarrow>
      Inr (ice_cream, s2))"

text \<open>
  \<^verbatim>\<open>geometric\<close> (lines 126-134). The name is built before the distribution, as Python
  evaluates the arguments of \<^verbatim>\<open>pyro.sample\<close> from left to right.

  Every recursive call occupies one more frame of the interpreter's stack, and the
  notebook never changes the recursion limit (1000 frames by default). The first
  argument \<open>frames\<close> is the number of nested calls of \<^verbatim>\<open>geometric\<close> that the
  interpreter still admits when the call is made: a call made when none is left raises
  RecursionError. The library calls of one level need frames of their own, above the
  level's frame; an admitted level is one at which they fit, and the level that is not
  admitted raises before it draws. No level has a handler, so an exception of the level
  below leaves every level above it. The result is the return value or the exception,
  together with the state in which the call ends: the draws made before an exception
  stay made.
\<close>

definition x_name :: "int \<Rightarrow> string" where
  "x_name t = ''x_'' @ str_int t"

fun geometric :: "nat \<Rightarrow> real \<Rightarrow> int option \<Rightarrow> state \<Rightarrow> (error + int) \<times> state" where
  "geometric 0 p t s = (Inl RecursionError, s)"
| "geometric (Suc frames) p t s =
     (let t = (case t of None \<Rightarrow> 0 | Some t \<Rightarrow> t);
          nm = x_name t in
      case Bernoulli p of Inl e \<Rightarrow> (Inl e, s) | Inr d \<Rightarrow>
      case sample nm d s of Inl e \<Rightarrow> (Inl e, s) | Inr (x, s1) \<Rightarrow>
      if x = 1 then (Inr 0, s1)
      else (case geometric frames p (Some (t + 1)) s1 of
              (Inl e, s2) \<Rightarrow> (Inl e, s2)
            | (Inr n, s2) \<Rightarrow> (Inr (1 + n), s2)))"

text \<open>\<^verbatim>\<open>normal_product\<close> (lines 143-149) and \<^verbatim>\<open>make_normal_normal\<close> (lines 151-154).\<close>

definition normal_product :: "real \<Rightarrow> real \<Rightarrow> state \<Rightarrow> real result" where
  "normal_product loc scale s =
     (case Normal loc scale of Inl e \<Rightarrow> Inl e | Inr d1 \<Rightarrow>
      case sample ''z1'' d1 s of Inl e \<Rightarrow> Inl e | Inr (z1, s1) \<Rightarrow>
      case Normal loc scale of Inl e \<Rightarrow> Inl e | Inr d2 \<Rightarrow>
      case sample ''z2'' d2 s1 of Inl e \<Rightarrow> Inl e | Inr (z2, s2) \<Rightarrow>
      let y = z1 * z2 in Inr (y, s2))"

definition make_normal_normal :: "state \<Rightarrow> (real \<Rightarrow> state \<Rightarrow> real result) result" where
  "make_normal_normal s =
     (case Normal 0 1 of Inl e \<Rightarrow> Inl e | Inr d \<Rightarrow>
      case sample ''mu_laten'' d s of Inl e \<Rightarrow> Inl e | Inr (mu_latent, s1) \<Rightarrow>
      let fn = (\<lambda>scale. normal_product mu_latent scale) in Inr (fn, s1))"

subsection \<open>Concrete inputs\<close>

text \<open>A random source whose first two raw draws are 0.7 and whose later draws are 0.2.\<close>

definition demo_source :: "nat \<Rightarrow> real" where
  "demo_source n = (if n < 2 then 7 / 10 else 1 / 5)"

definition demo_state :: state where
  "demo_state = \<lparr>source = demo_source, pos = 0, trace = [], strict = True\<rparr>"

text \<open>
  A random source whose first 1000 raw draws are 0.7 and whose later draws are 0.2, and
  the source whose raw draws are all 0.
\<close>

definition long_source :: "nat \<Rightarrow> real" where
  "long_source n = (if n < 1000 then 7 / 10 else 1 / 5)"

definition long_state :: state where
  "long_state = \<lparr>source = long_source, pos = 0, trace = [], strict = True\<rparr>"


text \<open>The same source in a trace that already holds a site named \<open>cloudy\<close>.\<close>

definition demo_dup_state :: state where
  "demo_dup_state = \<lparr>source = demo_source, pos = 0,
     trace = [\<lparr>name = ''cloudy'', fn = Bernoulli_dist 0.3, val = 0\<rparr>], strict = True\<rparr>"

section \<open>Properties\<close>

subsection \<open>The named sampler\<close>

lemma sample_ok:
  "\<not> (strict s \<and> nm \<in> set (names (trace s))) \<Longrightarrow>
   sample nm d s = Inr (draw d (source s (pos s)),
     s\<lparr>pos := pos s + 1, trace := trace s @ [\<lparr>name = nm, fn = d, val = draw d (source s (pos s))\<rparr>]\<rparr>)"
  by (simp add: sample_def Let_def)

lemma sample_dup:
  "strict s \<Longrightarrow> nm \<in> set (names (trace s)) \<Longrightarrow> sample nm d s = Inl DuplicateName"
  by (simp add: sample_def)

lemma digit_inj: "a < 10 \<Longrightarrow> b < 10 \<Longrightarrow> digit a = digit b \<Longrightarrow> a = b"
  by (simp add: digit_def char_of_eq_iff take_bit_eq_mod)

lemma digit_not_minus: "a < 10 \<Longrightarrow> digit a \<noteq> CHR ''-''"
  by (simp add: digit_def char_of_eq_iff take_bit_eq_mod)

lemma str_nat_nonempty: "str_nat n \<noteq> []"
  by (subst str_nat.simps) simp

lemma str_nat_no_minus: "CHR ''-'' \<notin> set (str_nat n)"
proof (induction n rule: str_nat.induct)
  case (1 n)
  show ?case
  proof (cases "n < 10")
    case True
    then show ?thesis using digit_not_minus [of n] by (subst str_nat.simps) auto
  next
    case False
    have "n mod 10 < 10" by simp
    then have "digit (n mod 10) \<noteq> CHR ''-''" by (rule digit_not_minus)
    with False 1 show ?thesis by (subst str_nat.simps) auto
  qed
qed

lemma str_nat_inj: "str_nat n = str_nat m \<Longrightarrow> n = m"
proof (induction n arbitrary: m rule: str_nat.induct)
  case (1 n)
  show ?case
  proof (cases "n < 10")
    case n: True
    show ?thesis
    proof (cases "m < 10")
      case True
      with n 1(2) show ?thesis
        by (simp add: str_nat.simps [of n] str_nat.simps [of m] digit_inj)
    next
      case False
      with n 1(2) have "[digit n] = str_nat (m div 10) @ [digit (m mod 10)]"
        by (simp add: str_nat.simps [of n] str_nat.simps [of m])
      then show ?thesis using str_nat_nonempty [of "m div 10"] by simp
    qed
  next
    case n: False
    show ?thesis
    proof (cases "m < 10")
      case True
      with n 1(2) have "str_nat (n div 10) @ [digit (n mod 10)] = [digit m]"
        by (simp add: str_nat.simps [of n] str_nat.simps [of m])
      then show ?thesis using str_nat_nonempty [of "n div 10"] by simp
    next
      case False
      with n 1(2) have eq: "str_nat (n div 10) = str_nat (m div 10)"
        and d: "digit (n mod 10) = digit (m mod 10)"
        by (simp_all add: str_nat.simps [of n] str_nat.simps [of m])
      from 1(1) [OF n eq] have "n div 10 = m div 10" .
      moreover have "n mod 10 = m mod 10"
        using d by (intro digit_inj) simp_all
      ultimately show ?thesis by (metis div_mult_mod_eq)
    qed
  qed
qed

lemma str_int_inj: "str_int i = str_int j \<Longrightarrow> i = j"
proof -
  assume eq: "str_int i = str_int j"
  have hd_nat: "\<And>n. hd (str_nat n) \<noteq> CHR ''-''"
    using str_nat_no_minus str_nat_nonempty by (metis hd_in_set)
  show ?thesis
  proof (cases "i < 0")
    case i: True
    show ?thesis
    proof (cases "j < 0")
      case True
      with i eq have "str_nat (nat (- i)) = str_nat (nat (- j))" by (simp add: str_int_def)
      then have "nat (- i) = nat (- j)" by (rule str_nat_inj)
      with i True show ?thesis by simp
    next
      case False
      with i eq have "CHR ''-'' # str_nat (nat (- i)) = str_nat (nat j)" by (simp add: str_int_def)
      then have "hd (str_nat (nat j)) = CHR ''-''" by (metis list.sel(1))
      with hd_nat show ?thesis by simp
    qed
  next
    case i: False
    show ?thesis
    proof (cases "j < 0")
      case True
      with i eq have "str_nat (nat i) = CHR ''-'' # str_nat (nat (- j))" by (simp add: str_int_def)
      then have "hd (str_nat (nat i)) = CHR ''-''" by (metis list.sel(1))
      with hd_nat show ?thesis by simp
    next
      case False
      with i eq have "str_nat (nat i) = str_nat (nat j)" by (simp add: str_int_def)
      then have "nat i = nat j" by (rule str_nat_inj)
      with i False show ?thesis by simp
    qed
  qed
qed

lemma x_name_inj: "x_name i = x_name j \<Longrightarrow> i = j"
  by (simp add: x_name_def str_int_inj)

subsection \<open>The weather model\<close>

lemma weather_result:
  assumes "weather s = Inr ((c, temp), s')"
  shows "\<exists>u. u = draw (Bernoulli_dist 0.3) (source s (pos s)) \<and>
     c = (if u = 1 then ''cloudy'' else ''sunny'') \<and>
     temp = draw (if u = 1 then Normal_dist 55 10 else Normal_dist 75 15) (source s (pos s + 1)) \<and>
     s' = s\<lparr>pos := pos s + 2,
            trace := trace s @
              [\<lparr>name = ''cloudy'', fn = Bernoulli_dist 0.3, val = u\<rparr>,
               \<lparr>name = ''temp'', fn = (if u = 1 then Normal_dist 55 10 else Normal_dist 75 15),
                val = temp\<rparr>]\<rparr>"
  using assms
  by (auto simp: weather_def Bernoulli_def Normal_def getitem_def sample_def Let_def names_def
      split: if_splits)

lemma weather_errors: "weather s = Inl e \<Longrightarrow> e = DuplicateName \<and> strict s"
  by (auto simp: weather_def Bernoulli_def Normal_def getitem_def sample_def Let_def names_def
      split: if_splits)

lemma weather_total:
  assumes "\<not> strict s \<or> (''cloudy'' \<notin> set (names (trace s)) \<and> ''temp'' \<notin> set (names (trace s)))"
  shows "\<exists>r s'. weather s = Inr (r, s')"
  using assms
  by (auto simp: weather_def Bernoulli_def Normal_def getitem_def sample_def Let_def names_def
      split: if_splits)

lemma weather_fresh_total: "\<exists>c temp s'. weather (fresh s) = Inr ((c, temp), s')"
  using weather_total [of "fresh s"] by (auto simp: fresh_def names_def)

lemma weather_again_dup:
  assumes "strict s" "weather s = Inr (r, s1)"
  shows "weather s1 = Inl DuplicateName"
  using assms
  by (auto simp: weather_def Bernoulli_def Normal_def getitem_def sample_def Let_def names_def
      split: if_splits)

subsection \<open>The claims on the weather model\<close>

lemma ice_cream_sales_result:
  assumes "ice_cream_sales s = Inr (v, s')"
  shows "\<exists>c temp s1. weather s = Inr ((c, temp), s1) \<and>
     v = draw (Normal_dist (if c = ''sunny'' \<and> temp > 80 then 200 else 50) 10)
           (source s1 (pos s1)) \<and>
     s' = s1\<lparr>pos := pos s1 + 1,
            trace := trace s1 @
              [\<lparr>name = ''ice_cream'',
                fn = Normal_dist (if c = ''sunny'' \<and> temp > 80 then 200 else 50) 10,
                val = v\<rparr>]\<rparr>"
proof (cases "weather s")
  case (Inl e)
  with assms show ?thesis by (simp add: ice_cream_sales_def)
next
  case (Inr r)
  obtain c temp s1 where r: "r = ((c, temp), s1)" by (cases r) auto
  from assms Inr r show ?thesis
    by (auto simp: ice_cream_sales_def Normal_def sample_def Let_def split: if_splits)
qed

lemma demo_weather_run:
  "weather demo_state = Inr ((''sunny'', 171 / 2),
     \<lparr>source = demo_source, pos = 2,
      trace = [\<lparr>name = ''cloudy'', fn = Bernoulli_dist 0.3, val = 0\<rparr>,
               \<lparr>name = ''temp'', fn = Normal_dist 75 15, val = 171 / 2\<rparr>],
      strict = True\<rparr>)"
  by (simp add: weather_def Bernoulli_def Normal_def getitem_def sample_def Let_def names_def
      demo_state_def demo_source_def)

lemma demo_ice_cream_run:
  "ice_cream_sales demo_state = Inr (202,
     \<lparr>source = demo_source, pos = 3,
      trace = [\<lparr>name = ''cloudy'', fn = Bernoulli_dist 0.3, val = 0\<rparr>,
               \<lparr>name = ''temp'', fn = Normal_dist 75 15, val = 171 / 2\<rparr>,
               \<lparr>name = ''ice_cream'', fn = Normal_dist 200 10, val = 202\<rparr>],
      strict = True\<rparr>)"
  by (simp add: ice_cream_sales_def demo_weather_run Normal_def sample_def Let_def names_def
      demo_source_def)

text \<open>
  Claim C10. In every run \<^verbatim>\<open>weather\<close> returns a pair whose first component is one of
  the two strings \<open>cloudy\<close> and \<open>sunny\<close>, and the two dictionary lookups cannot fail:
  \<^verbatim>\<open>weather\<close> never ends in KeyError, every value it returns has \<open>cloudy\<close> or
  \<open>sunny\<close> as first component, a top-level call does return such a value, and both
  dictionaries hold both keys.
\<close>

theorem weather_first_component:
  "weather s \<noteq> Inl KeyError \<and>
   (\<forall>c temp s'. weather s = Inr ((c, temp), s') \<longrightarrow> c = ''cloudy'' \<or> c = ''sunny'') \<and>
   (\<exists>c temp s'. weather (fresh s) = Inr ((c, temp), s') \<and> (c = ''cloudy'' \<or> c = ''sunny'')) \<and>
   (\<forall>k. k = ''cloudy'' \<or> k = ''sunny'' \<longrightarrow>
      getitem [(''cloudy'', 55.0), (''sunny'', 75.0)] k \<noteq> Inl KeyError \<and>
      getitem [(''cloudy'', 10.0), (''sunny'', 15.0)] k \<noteq> Inl KeyError)"
proof (intro conjI allI impI)
  show "weather s \<noteq> Inl KeyError" using weather_errors [of s KeyError] by auto
next
  fix c temp s'
  assume "weather s = Inr ((c, temp), s')"
  from weather_result [OF this] show "c = ''cloudy'' \<or> c = ''sunny''" by auto
next
  from weather_fresh_total [of s] obtain c temp s' where
    w: "weather (fresh s) = Inr ((c, temp), s')" by blast
  from weather_result [OF w] have "c = ''cloudy'' \<or> c = ''sunny''" by auto
  with w show "\<exists>c temp s'. weather (fresh s) = Inr ((c, temp), s') \<and>
      (c = ''cloudy'' \<or> c = ''sunny'')" by blast
next
  fix k :: string
  assume "k = ''cloudy'' \<or> k = ''sunny''"
  then show "getitem [(''cloudy'', 55.0), (''sunny'', 75.0)] k \<noteq> Inl KeyError"
    by (auto simp: getitem_def)
next
  fix k :: string
  assume "k = ''cloudy'' \<or> k = ''sunny''"
  then show "getitem [(''cloudy'', 10.0), (''sunny'', 15.0)] k \<noteq> Inl KeyError"
    by (auto simp: getitem_def)
qed

theorem weather_first_component_witness:
  "weather demo_state = Inr ((''sunny'', 171 / 2),
     \<lparr>source = demo_source, pos = 2,
      trace = [\<lparr>name = ''cloudy'', fn = Bernoulli_dist 0.3, val = 0\<rparr>,
               \<lparr>name = ''temp'', fn = Normal_dist 75 15, val = 171 / 2\<rparr>],
      strict = True\<rparr>) \<and>
   (''sunny'' = ''cloudy'' \<or> ''sunny'' = ''sunny'') \<and>
   getitem [(''cloudy'', 55.0), (''sunny'', 75.0)] ''sunny'' \<noteq> Inl KeyError \<and>
   getitem [(''cloudy'', 10.0), (''sunny'', 15.0)] ''sunny'' \<noteq> Inl KeyError"
proof -
  from weather_first_component [of demo_state]
  have "getitem [(''cloudy'', 55.0), (''sunny'', 75.0)] ''sunny'' \<noteq> Inl KeyError \<and>
      getitem [(''cloudy'', 10.0), (''sunny'', 15.0)] ''sunny'' \<noteq> Inl KeyError"
    by blast
  with demo_weather_run show ?thesis by simp
qed


lemma weather_trace:
  assumes "weather s = Inr ((c, temp), s')"
  shows "c = (if draw (Bernoulli_dist 0.3) (source s (pos s)) = 1 then ''cloudy'' else ''sunny'') \<and>
    trace s' = trace s @
      [\<lparr>name = ''cloudy'', fn = Bernoulli_dist 0.3,
        val = draw (Bernoulli_dist 0.3) (source s (pos s))\<rparr>,
       \<lparr>name = ''temp'',
        fn = (if draw (Bernoulli_dist 0.3) (source s (pos s)) = 1
              then Normal_dist 55 10 else Normal_dist 75 15),
        val = temp\<rparr>]"
proof -
  from weather_result [OF assms] obtain u where
    u: "u = draw (Bernoulli_dist 0.3) (source s (pos s))"
    and c: "c = (if u = 1 then ''cloudy'' else ''sunny'')"
    and s': "s' = s\<lparr>pos := pos s + 2,
            trace := trace s @
              [\<lparr>name = ''cloudy'', fn = Bernoulli_dist 0.3, val = u\<rparr>,
               \<lparr>name = ''temp'', fn = (if u = 1 then Normal_dist 55 10 else Normal_dist 75 15),
                val = temp\<rparr>]\<rparr>"
    by blast
  from s' have "trace s' = trace s @
              [\<lparr>name = ''cloudy'', fn = Bernoulli_dist 0.3, val = u\<rparr>,
               \<lparr>name = ''temp'', fn = (if u = 1 then Normal_dist 55 10 else Normal_dist 75 15),
                val = temp\<rparr>]"
    by simp
  with c show ?thesis unfolding u by blast
qed

lemma ice_cream_sales_trace:
  assumes "ice_cream_sales s = Inr (v, s')"
  shows "\<exists>c temp s1. weather s = Inr ((c, temp), s1) \<and>
        trace s' = trace s1 @
          [\<lparr>name = ''ice_cream'',
            fn = Normal_dist (if c = ''sunny'' \<and> temp > 80 then 200 else 50) 10,
            val = v\<rparr>]"
proof -
  from ice_cream_sales_result [OF assms] obtain c temp s1 where
    w: "weather s = Inr ((c, temp), s1)"
    and s': "s' = s1\<lparr>pos := pos s1 + 1,
            trace := trace s1 @
              [\<lparr>name = ''ice_cream'',
                fn = Normal_dist (if c = ''sunny'' \<and> temp > 80 then 200 else 50) 10,
                val = v\<rparr>]\<rparr>"
    by blast
  from s' have "trace s' = trace s1 @
          [\<lparr>name = ''ice_cream'',
            fn = Normal_dist (if c = ''sunny'' \<and> temp > 80 then 200 else 50) 10,
            val = v\<rparr>]"
    by simp
  with w show ?thesis by blast
qed

text \<open>
  Claim C6. Between two sampling calls the computation is a function of the sampled
  values. In \<^verbatim>\<open>weather\<close> the second site, \<open>temp\<close>, is drawn from Normal(55, 10) when
  the value of the first site, \<open>cloudy\<close> drawn from Bernoulli(0.3), is 1, and from
  Normal(75, 15) otherwise. In \<^verbatim>\<open>ice_cream_sales\<close> the site \<open>ice_cream\<close> is drawn from
  a Normal of scale 10 whose mean is 200 when \<^verbatim>\<open>weather\<close> returned \<open>sunny\<close> with a
  temperature above 80, and 50 in every other case.
\<close>

theorem weather_parameters_follow_first_draw:
  "(\<forall>c temp s'. weather s = Inr ((c, temp), s') \<longrightarrow>
      c = (if draw (Bernoulli_dist 0.3) (source s (pos s)) = 1 then ''cloudy'' else ''sunny'') \<and>
      trace s' = trace s @
        [\<lparr>name = ''cloudy'', fn = Bernoulli_dist 0.3,
          val = draw (Bernoulli_dist 0.3) (source s (pos s))\<rparr>,
         \<lparr>name = ''temp'',
          fn = (if draw (Bernoulli_dist 0.3) (source s (pos s)) = 1
                then Normal_dist 55 10 else Normal_dist 75 15),
          val = temp\<rparr>]) \<and>
   (\<forall>v s'. ice_cream_sales s = Inr (v, s') \<longrightarrow>
      (\<exists>c temp s1. weather s = Inr ((c, temp), s1) \<and>
        trace s' = trace s1 @
          [\<lparr>name = ''ice_cream'',
            fn = Normal_dist (if c = ''sunny'' \<and> temp > 80 then 200 else 50) 10,
            val = v\<rparr>]))"
  using weather_trace [of s] ice_cream_sales_trace [of s] by blast

theorem weather_parameters_follow_first_draw_witness:
  "weather demo_state = Inr ((''sunny'', 171 / 2),
     \<lparr>source = demo_source, pos = 2,
      trace = [\<lparr>name = ''cloudy'', fn = Bernoulli_dist 0.3, val = 0\<rparr>,
               \<lparr>name = ''temp'', fn = Normal_dist 75 15, val = 171 / 2\<rparr>],
      strict = True\<rparr>) \<and>
   draw (Bernoulli_dist 0.3) (source demo_state (pos demo_state)) = 0 \<and>
   ice_cream_sales demo_state = Inr (202,
     \<lparr>source = demo_source, pos = 3,
      trace = [\<lparr>name = ''cloudy'', fn = Bernoulli_dist 0.3, val = 0\<rparr>,
               \<lparr>name = ''temp'', fn = Normal_dist 75 15, val = 171 / 2\<rparr>,
               \<lparr>name = ''ice_cream'', fn = Normal_dist 200 10, val = 202\<rparr>],
      strict = True\<rparr>) \<and>
   (\<exists>c temp s1. weather demo_state = Inr ((c, temp), s1) \<and>
      [\<lparr>name = ''cloudy'', fn = Bernoulli_dist 0.3, val = 0\<rparr>,
       \<lparr>name = ''temp'', fn = Normal_dist 75 15, val = 171 / 2\<rparr>,
       \<lparr>name = ''ice_cream'', fn = Normal_dist 200 10, val = 202\<rparr>] =
      trace s1 @
        [\<lparr>name = ''ice_cream'',
          fn = Normal_dist (if c = ''sunny'' \<and> temp > 80 then 200 else 50) 10,
          val = 202\<rparr>])"
proof -
  have d: "draw (Bernoulli_dist 0.3) (source demo_state (pos demo_state)) = 0"
    by (simp add: demo_state_def demo_source_def)
  let ?s3 = "\<lparr>source = demo_source, pos = 3,
      trace = [\<lparr>name = ''cloudy'', fn = Bernoulli_dist 0.3, val = 0\<rparr>,
               \<lparr>name = ''temp'', fn = Normal_dist 75 15, val = 171 / 2\<rparr>,
               \<lparr>name = ''ice_cream'', fn = Normal_dist 200 10, val = 202\<rparr>],
      strict = True\<rparr>"
  from weather_parameters_follow_first_draw [of demo_state]
  have "\<forall>v s'. ice_cream_sales demo_state = Inr (v, s') \<longrightarrow>
      (\<exists>c temp s1. weather demo_state = Inr ((c, temp), s1) \<and>
        trace s' = trace s1 @
          [\<lparr>name = ''ice_cream'',
            fn = Normal_dist (if c = ''sunny'' \<and> temp > 80 then 200 else 50) 10,
            val = v\<rparr>])"
    by (rule conjunct2)
  then have "ice_cream_sales demo_state = Inr (202, ?s3) \<longrightarrow>
      (\<exists>c temp s1. weather demo_state = Inr ((c, temp), s1) \<and>
        trace ?s3 = trace s1 @
          [\<lparr>name = ''ice_cream'',
            fn = Normal_dist (if c = ''sunny'' \<and> temp > 80 then 200 else 50) 10,
            val = 202\<rparr>])"
    by (elim allE)
  with demo_ice_cream_run
  have e: "\<exists>c temp s1. weather demo_state = Inr ((c, temp), s1) \<and>
        trace ?s3 = trace s1 @
          [\<lparr>name = ''ice_cream'',
            fn = Normal_dist (if c = ''sunny'' \<and> temp > 80 then 200 else 50) 10,
            val = 202\<rparr>]"
    by (rule rev_mp)
  have t: "trace ?s3 = [\<lparr>name = ''cloudy'', fn = Bernoulli_dist 0.3, val = 0\<rparr>,
               \<lparr>name = ''temp'', fn = Normal_dist 75 15, val = 171 / 2\<rparr>,
               \<lparr>name = ''ice_cream'', fn = Normal_dist 200 10, val = 202\<rparr>]"
    by simp
  show ?thesis
    apply (intro conjI)
       apply (rule demo_weather_run)
      apply (rule d)
     apply (rule demo_ice_cream_run)
    apply (rule e [unfolded t])
    done
qed


lemma weather_fresh_state:
  assumes "weather (fresh s) = Inr (w, s1)"
  shows "source s1 = source s \<and> pos s1 = pos s + 2 \<and> strict s1 = strict s \<and>
    names (trace s1) = [''cloudy'', ''temp'']"
proof -
  obtain c temp where w: "w = (c, temp)" by (cases w)
  from weather_result [OF assms [unfolded w]] obtain u where
    s1: "s1 = (fresh s)\<lparr>pos := pos (fresh s) + 2,
            trace := trace (fresh s) @
              [\<lparr>name = ''cloudy'', fn = Bernoulli_dist 0.3, val = u\<rparr>,
               \<lparr>name = ''temp'', fn = (if u = 1 then Normal_dist 55 10 else Normal_dist 75 15),
                val = temp\<rparr>]\<rparr>"
    by blast
  show ?thesis unfolding s1 by (simp add: fresh_def names_def)
qed

lemma fresh_cong:
  "source a = source b \<Longrightarrow> pos a = pos b \<Longrightarrow> strict a = strict b \<Longrightarrow> fresh a = fresh b"
  by (cases a, cases b) (simp add: fresh_def)

lemma weather_loop_rounds:
  "\<exists>ws s'. weather_loop n s = Inr (ws, s') \<and> length ws = n \<and>
     source s' = source s \<and> pos s' = pos s + 2 * n \<and> strict s' = strict s \<and>
     (\<forall>i<n. \<exists>si. weather (fresh (s\<lparr>pos := pos s + 2 * i\<rparr>)) = Inr (ws ! i, si) \<and>
        pos si = pos s + 2 * i + 2 \<and> names (trace si) = [''cloudy'', ''temp''])"
proof (induction n arbitrary: s)
  case 0
  show ?case by simp
next
  case (Suc n)
  from weather_fresh_total [of s] obtain c temp s1 where
    w: "weather (fresh s) = Inr ((c, temp), s1)" by blast
  note st = weather_fresh_state [OF w]
  from Suc.IH [of s1] obtain ws s2 where
    l: "weather_loop n s1 = Inr (ws, s2)" and len: "length ws = n"
    and src: "source s2 = source s1" and p: "pos s2 = pos s1 + 2 * n"
    and str: "strict s2 = strict s1"
    and each: "\<forall>i<n. \<exists>si. weather (fresh (s1\<lparr>pos := pos s1 + 2 * i\<rparr>)) = Inr (ws ! i, si) \<and>
        pos si = pos s1 + 2 * i + 2 \<and> names (trace si) = [''cloudy'', ''temp'']"
    by blast
  have loop: "weather_loop (Suc n) s = Inr ((c, temp) # ws, s2)"
    by (simp add: w l)
  have "\<forall>i<Suc n. \<exists>si.
      weather (fresh (s\<lparr>pos := pos s + 2 * i\<rparr>)) = Inr (((c, temp) # ws) ! i, si) \<and>
      pos si = pos s + 2 * i + 2 \<and> names (trace si) = [''cloudy'', ''temp'']"
  proof (intro allI impI)
    fix i assume i: "i < Suc n"
    show "\<exists>si. weather (fresh (s\<lparr>pos := pos s + 2 * i\<rparr>)) = Inr (((c, temp) # ws) ! i, si) \<and>
      pos si = pos s + 2 * i + 2 \<and> names (trace si) = [''cloudy'', ''temp'']"
    proof (cases i)
      case 0
      have "fresh (s\<lparr>pos := pos s + 2 * 0\<rparr>) = fresh s" by (rule fresh_cong) simp_all
      with w st 0 show ?thesis by simp
    next
      case (Suc j)
      with i have "j < n" by simp
      with each obtain si where
        a: "weather (fresh (s1\<lparr>pos := pos s1 + 2 * j\<rparr>)) = Inr (ws ! j, si)"
        and b: "pos si = pos s1 + 2 * j + 2" and c: "names (trace si) = [''cloudy'', ''temp'']"
        by blast
      have "fresh (s1\<lparr>pos := pos s1 + 2 * j\<rparr>) = fresh (s\<lparr>pos := pos s + 2 * i\<rparr>)"
        by (rule fresh_cong) (simp_all add: st Suc)
      with a b c st Suc show ?thesis by simp
    qed
  qed
  with loop len src p str st show ?case by simp
qed

text \<open>
  Claim C8. Reusing the static names \<open>cloudy\<close> and \<open>temp\<close> across separate top-level
  invocations of \<^verbatim>\<open>weather\<close> is valid: every round of the loop starts a fresh trace, so
  five calls in sequence succeed from any state, whatever the duplicate policy and
  whatever the trace held before, and no DuplicateName arises. Round \<open>i\<close> is the
  top-level call of \<^verbatim>\<open>weather\<close> at the raw draws \<open>2 i\<close> and \<open>2 i + 1\<close> after the
  starting position, a pair of draws of its own, recorded as \<open>cloudy\<close> and \<open>temp\<close>.
  (Lemma \<open>weather_again_dup\<close> is the contrast: within one trace a second call is a
  duplicate under the strict policy.)
\<close>

theorem weather_five_calls:
  "\<exists>ws s'. weather_loop 5 s = Inr (ws, s') \<and> length ws = 5 \<and> pos s' = pos s + 10 \<and>
     (\<forall>i<5. \<exists>si. weather (fresh (s\<lparr>pos := pos s + 2 * i\<rparr>)) = Inr (ws ! i, si) \<and>
        pos si = pos s + 2 * i + 2 \<and> names (trace si) = [''cloudy'', ''temp''])"
  using weather_loop_rounds [of 5 s] by auto

lemma demo_weather_sunny:
  "weather (fresh \<lparr>source = demo_source, pos = 0, trace = tr, strict = b\<rparr>) =
     Inr ((''sunny'', 171 / 2),
       \<lparr>source = demo_source, pos = 2,
        trace = [\<lparr>name = ''cloudy'', fn = Bernoulli_dist 0.3, val = 0\<rparr>,
                 \<lparr>name = ''temp'', fn = Normal_dist 75 15, val = 171 / 2\<rparr>],
        strict = b\<rparr>)"
  by (simp add: weather_def Bernoulli_def Normal_def getitem_def sample_def Let_def names_def
      fresh_def demo_source_def)

lemma demo_weather_cloudy:
  "2 \<le> n \<Longrightarrow>
   weather (fresh \<lparr>source = demo_source, pos = n, trace = tr, strict = b\<rparr>) =
     Inr ((''cloudy'', 57),
       \<lparr>source = demo_source, pos = n + 2,
        trace = [\<lparr>name = ''cloudy'', fn = Bernoulli_dist 0.3, val = 1\<rparr>,
                 \<lparr>name = ''temp'', fn = Normal_dist 55 10, val = 57\<rparr>],
        strict = b\<rparr>)"
  by (simp add: weather_def Bernoulli_def Normal_def getitem_def sample_def Let_def names_def
      fresh_def demo_source_def)

lemma demo_weather_loop:
  "weather_loop 5 demo_state =
     Inr ([(''sunny'', 171 / 2), (''cloudy'', 57), (''cloudy'', 57), (''cloudy'', 57),
           (''cloudy'', 57)],
       \<lparr>source = demo_source, pos = 10,
        trace = [\<lparr>name = ''cloudy'', fn = Bernoulli_dist 0.3, val = 1\<rparr>,
                 \<lparr>name = ''temp'', fn = Normal_dist 55 10, val = 57\<rparr>],
        strict = True\<rparr>)"
proof -
  have n5: "(5::nat) = Suc (Suc (Suc (Suc (Suc 0))))" by simp
  show ?thesis
    unfolding n5 demo_state_def
    by (simp add: demo_weather_sunny demo_weather_cloudy)
qed

theorem weather_five_calls_witness:
  "weather_loop 5 demo_state =
     Inr ([(''sunny'', 171 / 2), (''cloudy'', 57), (''cloudy'', 57), (''cloudy'', 57),
           (''cloudy'', 57)],
       \<lparr>source = demo_source, pos = 10,
        trace = [\<lparr>name = ''cloudy'', fn = Bernoulli_dist 0.3, val = 1\<rparr>,
                 \<lparr>name = ''temp'', fn = Normal_dist 55 10, val = 57\<rparr>],
        strict = True\<rparr>) \<and>
   (\<exists>si. weather (fresh (demo_state\<lparr>pos := pos demo_state + 2 * 3\<rparr>)) =
        Inr ([(''sunny'', 171 / 2), (''cloudy'', 57), (''cloudy'', 57), (''cloudy'', 57),
           (''cloudy'', 57)] ! 3, si) \<and>
      pos si = pos demo_state + 2 * 3 + 2 \<and> names (trace si) = [''cloudy'', ''temp''])"
proof -
  from weather_five_calls [of demo_state] obtain ws s' where
    l: "weather_loop 5 demo_state = Inr (ws, s')"
    and each: "\<forall>i<5. \<exists>si. weather (fresh (demo_state\<lparr>pos := pos demo_state + 2 * i\<rparr>)) =
        Inr (ws ! i, si) \<and>
        pos si = pos demo_state + 2 * i + 2 \<and> names (trace si) = [''cloudy'', ''temp'']"
    by blast
  from l have ws: "ws = [(''sunny'', 171 / 2), (''cloudy'', 57), (''cloudy'', 57),
      (''cloudy'', 57), (''cloudy'', 57)]"
    unfolding demo_weather_loop by simp
  have "(3::nat) < 5" by simp
  with each have "\<exists>si. weather (fresh (demo_state\<lparr>pos := pos demo_state + 2 * 3\<rparr>)) =
        Inr (ws ! 3, si) \<and>
        pos si = pos demo_state + 2 * 3 + 2 \<and> names (trace si) = [''cloudy'', ''temp'']"
    by blast
  then show ?thesis unfolding ws using demo_weather_loop by blast
qed


subsection \<open>The higher-order model\<close>

lemma normal_product_result:
  assumes "0 < scale"
    and "strict s \<longrightarrow> ''z1'' \<notin> set (names (trace s)) \<and> ''z2'' \<notin> set (names (trace s))"
  shows "normal_product loc scale s =
    Inr (draw (Normal_dist loc scale) (source s (pos s)) *
         draw (Normal_dist loc scale) (source s (pos s + 1)),
      s\<lparr>pos := pos s + 2,
        trace := trace s @
          [\<lparr>name = ''z1'', fn = Normal_dist loc scale,
            val = draw (Normal_dist loc scale) (source s (pos s))\<rparr>,
           \<lparr>name = ''z2'', fn = Normal_dist loc scale,
            val = draw (Normal_dist loc scale) (source s (pos s + 1))\<rparr>]\<rparr>)"
  using assms
  by (auto simp: normal_product_def Normal_def sample_def Let_def names_def)

lemma make_normal_normal_fresh:
  "make_normal_normal (fresh s) =
    Inr (\<lambda>scale. normal_product (draw (Normal_dist 0 1) (source s (pos s))) scale,
      s\<lparr>pos := pos s + 1,
        trace := [\<lparr>name = ''mu_laten'', fn = Normal_dist 0 1,
                  val = draw (Normal_dist 0 1) (source s (pos s))\<rparr>]\<rparr>)"
  by (simp add: make_normal_normal_def Normal_def sample_def Let_def names_def fresh_def)

text \<open>
  Claim C9. \<^verbatim>\<open>make_normal_normal\<close> draws the site \<open>mu_laten\<close> once, from Normal(0, 1),
  when it is called itself: a top-level call consumes one raw draw, records that single
  site and returns a function closed over the drawn value. Every application of the
  returned function to a scale \<open>> 0\<close> (in a trace where \<open>z1\<close> and \<open>z2\<close> are free, or
  under the lenient policy) consumes two further raw draws, records exactly the two
  sites \<open>z1\<close> and \<open>z2\<close>, both from Normal(mu_latent, scale), and returns their product;
  \<open>mu_laten\<close> is not drawn again.
\<close>

theorem make_normal_normal_closure:
  "\<exists>f. make_normal_normal (fresh s) =
      Inr (f, s\<lparr>pos := pos s + 1,
        trace := [\<lparr>name = ''mu_laten'', fn = Normal_dist 0 1,
                  val = draw (Normal_dist 0 1) (source s (pos s))\<rparr>]\<rparr>) \<and>
    (\<forall>scale s2. 0 < scale \<and>
        (strict s2 \<longrightarrow> ''z1'' \<notin> set (names (trace s2)) \<and> ''z2'' \<notin> set (names (trace s2))) \<longrightarrow>
      f scale s2 =
        Inr (draw (Normal_dist (draw (Normal_dist 0 1) (source s (pos s))) scale)
               (source s2 (pos s2)) *
             draw (Normal_dist (draw (Normal_dist 0 1) (source s (pos s))) scale)
               (source s2 (pos s2 + 1)),
          s2\<lparr>pos := pos s2 + 2,
            trace := trace s2 @
              [\<lparr>name = ''z1'',
                fn = Normal_dist (draw (Normal_dist 0 1) (source s (pos s))) scale,
                val = draw (Normal_dist (draw (Normal_dist 0 1) (source s (pos s))) scale)
                        (source s2 (pos s2))\<rparr>,
               \<lparr>name = ''z2'',
                fn = Normal_dist (draw (Normal_dist 0 1) (source s (pos s))) scale,
                val = draw (Normal_dist (draw (Normal_dist 0 1) (source s (pos s))) scale)
                        (source s2 (pos s2 + 1))\<rparr>]\<rparr>))"
proof (intro exI conjI allI impI)
  show "make_normal_normal (fresh s) =
      Inr (\<lambda>scale. normal_product (draw (Normal_dist 0 1) (source s (pos s))) scale,
        s\<lparr>pos := pos s + 1,
          trace := [\<lparr>name = ''mu_laten'', fn = Normal_dist 0 1,
                    val = draw (Normal_dist 0 1) (source s (pos s))\<rparr>]\<rparr>)"
    by (rule make_normal_normal_fresh)
next
  fix scale :: real and s2 :: state
  assume a: "0 < scale \<and>
    (strict s2 \<longrightarrow> ''z1'' \<notin> set (names (trace s2)) \<and> ''z2'' \<notin> set (names (trace s2)))"
  from a have p: "0 < scale" and q: "strict s2 \<longrightarrow>
      ''z1'' \<notin> set (names (trace s2)) \<and> ''z2'' \<notin> set (names (trace s2))"
    by blast+
  show "normal_product (draw (Normal_dist 0 1) (source s (pos s))) scale s2 =
        Inr (draw (Normal_dist (draw (Normal_dist 0 1) (source s (pos s))) scale)
               (source s2 (pos s2)) *
             draw (Normal_dist (draw (Normal_dist 0 1) (source s (pos s))) scale)
               (source s2 (pos s2 + 1)),
          s2\<lparr>pos := pos s2 + 2,
            trace := trace s2 @
              [\<lparr>name = ''z1'',
                fn = Normal_dist (draw (Normal_dist 0 1) (source s (pos s))) scale,
                val = draw (Normal_dist (draw (Normal_dist 0 1) (source s (pos s))) scale)
                        (source s2 (pos s2))\<rparr>,
               \<lparr>name = ''z2'',
                fn = Normal_dist (draw (Normal_dist 0 1) (source s (pos s))) scale,
                val = draw (Normal_dist (draw (Normal_dist 0 1) (source s (pos s))) scale)
                        (source s2 (pos s2 + 1))\<rparr>]\<rparr>)"
    by (rule normal_product_result [OF p q])
qed

theorem make_normal_normal_closure_witness:
  "\<exists>f. make_normal_normal (fresh demo_state) =
      Inr (f, \<lparr>source = demo_source, pos = 1,
        trace = [\<lparr>name = ''mu_laten'', fn = Normal_dist 0 1, val = 7 / 10\<rparr>],
        strict = True\<rparr>) \<and>
    f 1 \<lparr>source = demo_source, pos = 1,
        trace = [\<lparr>name = ''mu_laten'', fn = Normal_dist 0 1, val = 7 / 10\<rparr>],
        strict = True\<rparr> =
      Inr (63 / 50, \<lparr>source = demo_source, pos = 3,
        trace = [\<lparr>name = ''mu_laten'', fn = Normal_dist 0 1, val = 7 / 10\<rparr>,
                 \<lparr>name = ''z1'', fn = Normal_dist (7 / 10) 1, val = 7 / 5\<rparr>,
                 \<lparr>name = ''z2'', fn = Normal_dist (7 / 10) 1, val = 9 / 10\<rparr>],
        strict = True\<rparr>)"
proof -
  let ?s1 = "\<lparr>source = demo_source, pos = 1,
        trace = [\<lparr>name = ''mu_laten'', fn = Normal_dist 0 1, val = 7 / 10\<rparr>],
        strict = True\<rparr>"
  have mu: "draw (Normal_dist 0 1) (source demo_state (pos demo_state)) = 7 / 10"
    by (simp add: demo_state_def demo_source_def)
  have s1: "demo_state\<lparr>pos := pos demo_state + 1,
        trace := [\<lparr>name = ''mu_laten'', fn = Normal_dist 0 1, val = 7 / 10\<rparr>]\<rparr> = ?s1"
    by (simp add: demo_state_def)
  from make_normal_normal_closure [of demo_state] obtain f where
    m: "make_normal_normal (fresh demo_state) = Inr (f, ?s1)"
    and app: "\<forall>scale s2. 0 < scale \<and>
        (strict s2 \<longrightarrow> ''z1'' \<notin> set (names (trace s2)) \<and> ''z2'' \<notin> set (names (trace s2))) \<longrightarrow>
      f scale s2 =
        Inr (draw (Normal_dist (7 / 10) scale) (source s2 (pos s2)) *
             draw (Normal_dist (7 / 10) scale) (source s2 (pos s2 + 1)),
          s2\<lparr>pos := pos s2 + 2,
            trace := trace s2 @
              [\<lparr>name = ''z1'', fn = Normal_dist (7 / 10) scale,
                val = draw (Normal_dist (7 / 10) scale) (source s2 (pos s2))\<rparr>,
               \<lparr>name = ''z2'', fn = Normal_dist (7 / 10) scale,
                val = draw (Normal_dist (7 / 10) scale) (source s2 (pos s2 + 1))\<rparr>]\<rparr>)"
    unfolding mu s1 by blast
  have pre: "(0::real) < 1 \<and>
      (strict ?s1 \<longrightarrow> ''z1'' \<notin> set (names (trace ?s1)) \<and> ''z2'' \<notin> set (names (trace ?s1)))"
    by (simp add: names_def)
  from app have "0 < (1::real) \<and>
        (strict ?s1 \<longrightarrow> ''z1'' \<notin> set (names (trace ?s1)) \<and> ''z2'' \<notin> set (names (trace ?s1))) \<longrightarrow>
      f 1 ?s1 =
        Inr (draw (Normal_dist (7 / 10) 1) (source ?s1 (pos ?s1)) *
             draw (Normal_dist (7 / 10) 1) (source ?s1 (pos ?s1 + 1)),
          ?s1\<lparr>pos := pos ?s1 + 2,
            trace := trace ?s1 @
              [\<lparr>name = ''z1'', fn = Normal_dist (7 / 10) 1,
                val = draw (Normal_dist (7 / 10) 1) (source ?s1 (pos ?s1))\<rparr>,
               \<lparr>name = ''z2'', fn = Normal_dist (7 / 10) 1,
                val = draw (Normal_dist (7 / 10) 1) (source ?s1 (pos ?s1 + 1))\<rparr>]\<rparr>)"
    by (elim allE)
  with pre have "f 1 ?s1 =
        Inr (draw (Normal_dist (7 / 10) 1) (source ?s1 (pos ?s1)) *
             draw (Normal_dist (7 / 10) 1) (source ?s1 (pos ?s1 + 1)),
          ?s1\<lparr>pos := pos ?s1 + 2,
            trace := trace ?s1 @
              [\<lparr>name = ''z1'', fn = Normal_dist (7 / 10) 1,
                val = draw (Normal_dist (7 / 10) 1) (source ?s1 (pos ?s1))\<rparr>,
               \<lparr>name = ''z2'', fn = Normal_dist (7 / 10) 1,
                val = draw (Normal_dist (7 / 10) 1) (source ?s1 (pos ?s1 + 1))\<rparr>]\<rparr>)"
    by (rule rev_mp)
  then have "f 1 ?s1 = Inr (63 / 50, \<lparr>source = demo_source, pos = 3,
        trace = [\<lparr>name = ''mu_laten'', fn = Normal_dist 0 1, val = 7 / 10\<rparr>,
                 \<lparr>name = ''z1'', fn = Normal_dist (7 / 10) 1, val = 7 / 5\<rparr>,
                 \<lparr>name = ''z2'', fn = Normal_dist (7 / 10) 1, val = 9 / 10\<rparr>],
        strict = True\<rparr>)"
    by (simp add: demo_source_def)
  with m show ?thesis by blast
qed

subsection \<open>The geometric model\<close>

lemma x_name_0: "x_name 0 = ''x_0''"
  by code_simp

lemma geometric_None: "geometric frames p None s = geometric frames p (Some 0) s"
  by (cases frames) simp_all

lemma geometric_step:
  "geometric (Suc frames) p (Some t) s =
     (case Bernoulli p of Inl e \<Rightarrow> (Inl e, s) | Inr d \<Rightarrow>
      case sample (x_name t) d s of Inl e \<Rightarrow> (Inl e, s) | Inr (x, s1) \<Rightarrow>
      if x = 1 then (Inr 0, s1)
      else (case geometric frames p (Some (t + 1)) s1 of
              (Inl e, s2) \<Rightarrow> (Inl e, s2)
            | (Inr n, s2) \<Rightarrow> (Inr (1 + n), s2)))"
  by (simp add: Let_def)

lemma draw_Bernoulli_cases:
  "draw (Bernoulli_dist p) u = 1 \<or> draw (Bernoulli_dist p) u = 0"
  by simp

lemma geometric_failed_draw:
  assumes p: "0 \<le> p" "p \<le> 1"
    and free: "strict s \<longrightarrow> (\<forall>j\<ge>t. x_name j \<notin> set (names (trace s)))"
    and fail: "draw (Bernoulli_dist p) (source s (pos s)) \<noteq> 1"
  shows "geometric (Suc frames) p (Some t) s =
      (case geometric frames p (Some (t + 1))
         (s\<lparr>pos := pos s + 1,
            trace := trace s @ [\<lparr>name = x_name t, fn = Bernoulli_dist p, val = 0\<rparr>]\<rparr>) of
         (Inl e, s2) \<Rightarrow> (Inl e, s2)
       | (Inr n, s2) \<Rightarrow> (Inr (1 + n), s2))"
    and "strict (s\<lparr>pos := pos s + 1,
            trace := trace s @ [\<lparr>name = x_name t, fn = Bernoulli_dist p, val = 0\<rparr>]\<rparr>) \<longrightarrow>
      (\<forall>j\<ge>t + 1. x_name j \<notin> set (names (trace (s\<lparr>pos := pos s + 1,
            trace := trace s @ [\<lparr>name = x_name t, fn = Bernoulli_dist p, val = 0\<rparr>]\<rparr>))))"
proof -
  let ?s1 = "s\<lparr>pos := pos s + 1,
      trace := trace s @ [\<lparr>name = x_name t, fn = Bernoulli_dist p, val = 0\<rparr>]\<rparr>"
  from free have ok: "\<not> (strict s \<and> x_name t \<in> set (names (trace s)))" by auto
  from fail draw_Bernoulli_cases [of p "source s (pos s)"]
  have d: "draw (Bernoulli_dist p) (source s (pos s)) = 0" by blast
  have smp: "sample (x_name t) (Bernoulli_dist p) s = Inr (0, ?s1)"
    using d by (simp add: sample_ok [OF ok] del: draw.simps)
  show "geometric (Suc frames) p (Some t) s =
      (case geometric frames p (Some (t + 1)) ?s1 of
         (Inl e, s2) \<Rightarrow> (Inl e, s2)
       | (Inr n, s2) \<Rightarrow> (Inr (1 + n), s2))"
    by (subst geometric_step) (simp add: Bernoulli_def p smp)
  show "strict ?s1 \<longrightarrow> (\<forall>j\<ge>t + 1. x_name j \<notin> set (names (trace ?s1)))"
  proof (intro allI impI)
    fix j assume st: "strict ?s1" and j: "t + 1 \<le> j"
    from st free j have "x_name j \<notin> set (names (trace s))" by simp
    moreover from j have "x_name j \<noteq> x_name t" using x_name_inj [of j t] by auto
    ultimately show "x_name j \<notin> set (names (trace ?s1))" by (simp add: names_def)
  qed
qed

lemma geometric_first_success:
  assumes p: "0 \<le> p" "p \<le> 1"
    and free: "strict s \<longrightarrow> (\<forall>j\<ge>t. x_name j \<notin> set (names (trace s)))"
    and k: "k < frames"
    and fails: "\<forall>i<k. draw (Bernoulli_dist p) (source s (pos s + i)) \<noteq> 1"
    and succ: "draw (Bernoulli_dist p) (source s (pos s + k)) = 1"
  shows "geometric frames p (Some t) s =
    (Inr (int k), s\<lparr>pos := pos s + k + 1,
      trace := trace s @
        map (\<lambda>i. \<lparr>name = x_name (t + int i), fn = Bernoulli_dist p, val = 0\<rparr>) [0..<k] @
        [\<lparr>name = x_name (t + int k), fn = Bernoulli_dist p, val = 1\<rparr>]\<rparr>)"
  using free k fails succ
proof (induction k arbitrary: frames t s)
  case 0
  from 0(2) obtain m where m: "frames = Suc m" by (cases frames) auto
  from 0(1) have ok: "\<not> (strict s \<and> x_name t \<in> set (names (trace s)))" by auto
  from 0(4) have d: "draw (Bernoulli_dist p) (source s (pos s)) = 1" by simp
  show ?case
    unfolding m
    by (subst geometric_step) (simp add: Bernoulli_def p sample_ok [OF ok] d del: draw.simps)
next
  case (Suc k)
  from Suc.prems(2) obtain m where m: "frames = Suc m" and km: "k < m"
    by (cases frames) auto
  let ?s1 = "s\<lparr>pos := pos s + 1,
      trace := trace s @ [\<lparr>name = x_name t, fn = Bernoulli_dist p, val = 0\<rparr>]\<rparr>"
  from Suc.prems(3) have f0: "draw (Bernoulli_dist p) (source s (pos s)) \<noteq> 1" by force
  note step = geometric_failed_draw(1) [OF p Suc.prems(1) f0, of m]
  note free1 = geometric_failed_draw(2) [OF p Suc.prems(1) f0]
  have fails1: "\<forall>i<k. draw (Bernoulli_dist p) (source ?s1 (pos ?s1 + i)) \<noteq> 1"
  proof (intro allI impI)
    fix i assume "i < k"
    then have "Suc i < Suc k" by simp
    with Suc.prems(3) have "draw (Bernoulli_dist p) (source s (pos s + Suc i)) \<noteq> 1" by blast
    then show "draw (Bernoulli_dist p) (source ?s1 (pos ?s1 + i)) \<noteq> 1" by simp
  qed
  have succ1: "draw (Bernoulli_dist p) (source ?s1 (pos ?s1 + k)) = 1"
    using Suc.prems(4) by simp
  have lst: "map (\<lambda>i. \<lparr>name = x_name (t + int i), fn = Bernoulli_dist p, val = 0\<rparr>) [0..<Suc k] =
      \<lparr>name = x_name t, fn = Bernoulli_dist p, val = 0\<rparr> #
      map (\<lambda>i. \<lparr>name = x_name (t + 1 + int i), fn = Bernoulli_dist p, val = 0\<rparr>) [0..<k]"
    by (simp add: map_upt_Suc ac_simps del: upt_Suc)
  have last: "t + int (Suc k) = t + 1 + int k" by simp
  note ih = Suc.IH [OF free1 km fails1 succ1]
  show ?case
    unfolding m
    apply (subst step)
    apply (subst ih)
    apply (subst lst)
    apply (subst last)
    apply (simp del: upt_Suc)
    done
qed

lemma geometric_exhausted:
  assumes p: "0 \<le> p" "p \<le> 1"
    and free: "strict s \<longrightarrow> (\<forall>j\<ge>t. x_name j \<notin> set (names (trace s)))"
    and fails: "\<forall>i<frames. draw (Bernoulli_dist p) (source s (pos s + i)) \<noteq> 1"
  shows "geometric frames p (Some t) s =
    (Inl RecursionError, s\<lparr>pos := pos s + frames,
      trace := trace s @
        map (\<lambda>i. \<lparr>name = x_name (t + int i), fn = Bernoulli_dist p, val = 0\<rparr>) [0..<frames]\<rparr>)"
  using free fails
proof (induction frames arbitrary: t s)
  case 0
  show ?case by simp
next
  case (Suc m)
  let ?s1 = "s\<lparr>pos := pos s + 1,
      trace := trace s @ [\<lparr>name = x_name t, fn = Bernoulli_dist p, val = 0\<rparr>]\<rparr>"
  from Suc.prems(2) have f0: "draw (Bernoulli_dist p) (source s (pos s)) \<noteq> 1" by force
  note step = geometric_failed_draw(1) [OF p Suc.prems(1) f0, of m]
  note free1 = geometric_failed_draw(2) [OF p Suc.prems(1) f0]
  have fails1: "\<forall>i<m. draw (Bernoulli_dist p) (source ?s1 (pos ?s1 + i)) \<noteq> 1"
  proof (intro allI impI)
    fix i assume "i < m"
    then have "Suc i < Suc m" by simp
    with Suc.prems(2) have "draw (Bernoulli_dist p) (source s (pos s + Suc i)) \<noteq> 1" by blast
    then show "draw (Bernoulli_dist p) (source ?s1 (pos ?s1 + i)) \<noteq> 1" by simp
  qed
  have lst: "map (\<lambda>i. \<lparr>name = x_name (t + int i), fn = Bernoulli_dist p, val = 0\<rparr>) [0..<Suc m] =
      \<lparr>name = x_name t, fn = Bernoulli_dist p, val = 0\<rparr> #
      map (\<lambda>i. \<lparr>name = x_name (t + 1 + int i), fn = Bernoulli_dist p, val = 0\<rparr>) [0..<m]"
    by (simp add: map_upt_Suc ac_simps del: upt_Suc)
  note ih = Suc.IH [OF free1 fails1]
  show ?case
    apply (subst step)
    apply (subst ih)
    apply (subst lst)
    apply (simp del: upt_Suc)
    done
qed

lemma geometric_invalid:
  assumes "\<not> (0 \<le> p \<and> p \<le> 1)"
  shows "geometric (Suc frames) p t s = (Inl InvalidParameter, s)"
proof -
  from assms have "Bernoulli p = Inl InvalidParameter" by (simp add: Bernoulli_def)
  then show ?thesis by (simp add: Let_def)
qed

lemma geometric_top_level:
  assumes "0 \<le> p" and "p \<le> 1" and "k < frames"
    and "\<forall>i<k. draw (Bernoulli_dist p) (source s (pos s + i)) \<noteq> 1"
    and "draw (Bernoulli_dist p) (source s (pos s + k)) = 1"
  shows "geometric frames p None (fresh s) =
    (Inr (int k), s\<lparr>pos := pos s + k + 1,
      trace :=
        map (\<lambda>i. \<lparr>name = x_name (int i), fn = Bernoulli_dist p, val = 0\<rparr>) [0..<k] @
        [\<lparr>name = x_name (int k), fn = Bernoulli_dist p, val = 1\<rparr>]\<rparr>)"
proof -
  have free: "strict (fresh s) \<longrightarrow> (\<forall>j\<ge>0. x_name j \<notin> set (names (trace (fresh s))))"
    by (simp add: fresh_def names_def)
  have fails: "\<forall>i<k. draw (Bernoulli_dist p) (source (fresh s) (pos (fresh s) + i)) \<noteq> 1"
    using assms(4) by (simp add: fresh_def)
  have succ: "draw (Bernoulli_dist p) (source (fresh s) (pos (fresh s) + k)) = 1"
    using assms(5) by (simp add: fresh_def)
  show ?thesis
    unfolding geometric_None
    by (subst geometric_first_success [OF assms(1,2) free assms(3) fails succ])
      (simp add: fresh_def)
qed

lemma geometric_top_exhausted:
  assumes "0 \<le> p" and "p \<le> 1"
    and "\<forall>i<frames. draw (Bernoulli_dist p) (source s (pos s + i)) \<noteq> 1"
  shows "geometric frames p None (fresh s) =
    (Inl RecursionError, s\<lparr>pos := pos s + frames,
      trace :=
        map (\<lambda>i. \<lparr>name = x_name (int i), fn = Bernoulli_dist p, val = 0\<rparr>) [0..<frames]\<rparr>)"
proof -
  have free: "strict (fresh s) \<longrightarrow> (\<forall>j\<ge>0. x_name j \<notin> set (names (trace (fresh s))))"
    by (simp add: fresh_def names_def)
  have fails: "\<forall>i<frames. draw (Bernoulli_dist p) (source (fresh s) (pos (fresh s) + i)) \<noteq> 1"
    using assms(3) by (simp add: fresh_def)
  show ?thesis
    unfolding geometric_None
    by (subst geometric_exhausted [OF assms(1,2) free fails]) (simp add: fresh_def)
qed

lemma geometric_top_invalid:
  assumes "\<not> (0 \<le> p \<and> p \<le> 1)"
  shows "geometric frames p None (fresh s) =
    (if frames = 0 then Inl RecursionError else Inl InvalidParameter, fresh s)"
proof (cases frames)
  case 0
  then show ?thesis by simp
next
  case (Suc m)
  then show ?thesis by (simp add: geometric_invalid [OF assms] del: geometric.simps)
qed

lemma first_success_cases:
  fixes P :: "nat \<Rightarrow> bool"
  shows "(\<exists>k<n. (\<forall>i<k. \<not> P i) \<and> P k) \<or> (\<forall>i<n. \<not> P i)"
proof (cases "\<exists>k<n. P k")
  case True
  then obtain k0 where k0: "k0 < n" "P k0" by blast
  define k where "k = (LEAST k. P k)"
  have Pk: "P k" unfolding k_def using k0(2) by (rule LeastI)
  have kle: "k \<le> k0" unfolding k_def using k0(2) by (rule Least_le)
  have "\<forall>i<k. \<not> P i" unfolding k_def using not_less_Least by blast
  with Pk kle k0(1) show ?thesis by (intro disjI1 exI [of _ k]) simp
next
  case False
  then show ?thesis by blast
qed

lemma geometric_outcomes:
  assumes "0 \<le> p" and "p \<le> 1"
  shows "(\<exists>k<frames. geometric frames p None (fresh s) =
      (Inr (int k), s\<lparr>pos := pos s + k + 1,
        trace :=
          map (\<lambda>i. \<lparr>name = x_name (int i), fn = Bernoulli_dist p, val = 0\<rparr>) [0..<k] @
          [\<lparr>name = x_name (int k), fn = Bernoulli_dist p, val = 1\<rparr>]\<rparr>) \<and>
      (\<forall>i<k. draw (Bernoulli_dist p) (source s (pos s + i)) = 0) \<and>
      draw (Bernoulli_dist p) (source s (pos s + k)) = 1) \<or>
    (geometric frames p None (fresh s) =
      (Inl RecursionError, s\<lparr>pos := pos s + frames,
        trace :=
          map (\<lambda>i. \<lparr>name = x_name (int i), fn = Bernoulli_dist p, val = 0\<rparr>) [0..<frames]\<rparr>) \<and>
      (\<forall>i<frames. draw (Bernoulli_dist p) (source s (pos s + i)) = 0))"
proof -
  have z: "\<And>i. draw (Bernoulli_dist p) (source s (pos s + i)) \<noteq> 1 \<Longrightarrow>
      draw (Bernoulli_dist p) (source s (pos s + i)) = 0"
    using draw_Bernoulli_cases by blast
  from first_success_cases [of frames "\<lambda>i. draw (Bernoulli_dist p) (source s (pos s + i)) = 1"]
  show ?thesis
  proof
    assume "\<exists>k<frames. (\<forall>i<k. draw (Bernoulli_dist p) (source s (pos s + i)) \<noteq> 1) \<and>
        draw (Bernoulli_dist p) (source s (pos s + k)) = 1"
    then obtain k where k: "k < frames"
      and f: "\<forall>i<k. draw (Bernoulli_dist p) (source s (pos s + i)) \<noteq> 1"
      and su: "draw (Bernoulli_dist p) (source s (pos s + k)) = 1"
      by blast
    from f z have f0: "\<forall>i<k. draw (Bernoulli_dist p) (source s (pos s + i)) = 0" by blast
    from geometric_top_level [OF assms k f su] k f0 su show ?thesis by blast
  next
    assume f: "\<forall>i<frames. draw (Bernoulli_dist p) (source s (pos s + i)) \<noteq> 1"
    from f z have f0: "\<forall>i<frames. draw (Bernoulli_dist p) (source s (pos s + i)) = 0" by blast
    from geometric_top_exhausted [OF assms f] f0 show ?thesis by blast
  qed
qed

subsection \<open>The claims on the geometric model\<close>

text \<open>
  The recursion limit bounds the count. With the source \<open>long_source\<close> the Bernoulli(1/2)
  draws at the depths 0, ..., 999 are 0 and the draw at depth 1000 would be 1: a run that
  has 1001 frames left returns 1000, the number of failed trials, and a run that has
  1000 frames left (Python's default limit admits no more) ends in RecursionError
  instead of returning that number.
\<close>
theorem geometric_limit_counterexample:
  "fst (geometric 1001 (1 / 2) None (fresh long_state)) = Inr 1000 \<and>
   fst (geometric 1000 (1 / 2) None (fresh long_state)) = Inl RecursionError"
proof -
  have h1: "(0::real) \<le> 1 / 2" and h2: "(1::real) / 2 \<le> 1" by simp_all
  have f: "\<forall>i<1000. draw (Bernoulli_dist (1 / 2)) (source long_state (pos long_state + i)) \<noteq> 1"
    by (simp add: long_state_def long_source_def)
  have su: "draw (Bernoulli_dist (1 / 2)) (source long_state (pos long_state + 1000)) = 1"
    by (simp add: long_state_def long_source_def)
  have k: "(1000::nat) < 1001" by simp
  from geometric_top_level [OF h1 h2 k f su]
  have a: "fst (geometric 1001 (1 / 2) None (fresh long_state)) = Inr 1000" by simp
  from geometric_top_exhausted [OF h1 h2 f]
  have b: "fst (geometric 1000 (1 / 2) None (fresh long_state)) = Inl RecursionError" by simp
  from a b show ?thesis ..
qed

text \<open>
  Claim C1. For a probability \<open>p\<close> in [0,1], a top-level call \<^verbatim>\<open>geometric(p)\<close> draws
  Bernoulli(p) samples at the depths 0, 1, 2, ... Let \<open>k\<close> be the depth of the first
  draw whose value is 1, so that \<open>k\<close> is the number of failed trials before the first
  success. When the interpreter admits more than \<open>k\<close> nested calls, the call returns
  \<open>k\<close>, has consumed \<open>k + 1\<close> raw draws and has recorded the sites \<open>x_0, ..., x_k\<close> with
  the values 0, ..., 0, 1. When it admits only \<open>frames \<le> k\<close> nested calls, the call
  raises RecursionError after \<open>frames\<close> draws of value 0, recorded as
  \<open>x_0, ..., x_(frames-1)\<close>, and returns no count.
\<close>
theorem geometric_counts_failures:
  assumes "0 \<le> p" and "p \<le> 1"
    and "\<forall>i<k. draw (Bernoulli_dist p) (source s (pos s + i)) \<noteq> 1"
    and "draw (Bernoulli_dist p) (source s (pos s + k)) = 1"
  shows "(k < frames \<longrightarrow>
      geometric frames p None (fresh s) =
        (Inr (int k), s\<lparr>pos := pos s + k + 1,
          trace :=
            map (\<lambda>i. \<lparr>name = x_name (int i), fn = Bernoulli_dist p, val = 0\<rparr>) [0..<k] @
            [\<lparr>name = x_name (int k), fn = Bernoulli_dist p, val = 1\<rparr>]\<rparr>)) \<and>
    (frames \<le> k \<longrightarrow>
      geometric frames p None (fresh s) =
        (Inl RecursionError, s\<lparr>pos := pos s + frames,
          trace :=
            map (\<lambda>i. \<lparr>name = x_name (int i), fn = Bernoulli_dist p, val = 0\<rparr>)
              [0..<frames]\<rparr>))"
proof (intro conjI impI)
  assume "k < frames"
  from geometric_top_level [OF assms(1,2) this assms(3,4)]
  show "geometric frames p None (fresh s) =
        (Inr (int k), s\<lparr>pos := pos s + k + 1,
          trace :=
            map (\<lambda>i. \<lparr>name = x_name (int i), fn = Bernoulli_dist p, val = 0\<rparr>) [0..<k] @
            [\<lparr>name = x_name (int k), fn = Bernoulli_dist p, val = 1\<rparr>]\<rparr>)" .
next
  assume "frames \<le> k"
  with assms(3) have "\<forall>i<frames. draw (Bernoulli_dist p) (source s (pos s + i)) \<noteq> 1"
    by (meson less_le_trans)
  from geometric_top_exhausted [OF assms(1,2) this]
  show "geometric frames p None (fresh s) =
        (Inl RecursionError, s\<lparr>pos := pos s + frames,
          trace :=
            map (\<lambda>i. \<lparr>name = x_name (int i), fn = Bernoulli_dist p, val = 0\<rparr>)
              [0..<frames]\<rparr>)" .
qed

theorem geometric_counts_failures_witness:
  "(0::real) \<le> 1 / 2 \<and> (1::real) / 2 \<le> 1 \<and>
   draw (Bernoulli_dist (1 / 2)) (source demo_state (pos demo_state + 0)) \<noteq> 1 \<and>
   draw (Bernoulli_dist (1 / 2)) (source demo_state (pos demo_state + 1)) \<noteq> 1 \<and>
   draw (Bernoulli_dist (1 / 2)) (source demo_state (pos demo_state + 2)) = 1 \<and>
   geometric 1000 (1 / 2) None (fresh demo_state) =
     (Inr 2, \<lparr>source = demo_source, pos = 3,
       trace = [\<lparr>name = ''x_0'', fn = Bernoulli_dist (1 / 2), val = 0\<rparr>,
                \<lparr>name = ''x_1'', fn = Bernoulli_dist (1 / 2), val = 0\<rparr>,
                \<lparr>name = ''x_2'', fn = Bernoulli_dist (1 / 2), val = 1\<rparr>],
       strict = True\<rparr>) \<and>
   geometric 2 (1 / 2) None (fresh demo_state) =
     (Inl RecursionError, \<lparr>source = demo_source, pos = 2,
       trace = [\<lparr>name = ''x_0'', fn = Bernoulli_dist (1 / 2), val = 0\<rparr>,
                \<lparr>name = ''x_1'', fn = Bernoulli_dist (1 / 2), val = 0\<rparr>],
       strict = True\<rparr>)"
proof -
  have h1: "(0::real) \<le> 1 / 2" and h2: "(1::real) / 2 \<le> 1" by simp_all
  have h3: "\<forall>i<2. draw (Bernoulli_dist (1 / 2)) (source demo_state (pos demo_state + i)) \<noteq> 1"
    by (simp add: demo_state_def demo_source_def)
  have h4: "draw (Bernoulli_dist (1 / 2)) (source demo_state (pos demo_state + 2)) = 1"
    by (simp add: demo_state_def demo_source_def)
  have h5: "draw (Bernoulli_dist (1 / 2)) (source demo_state (pos demo_state + 0)) \<noteq> 1"
    and h6: "draw (Bernoulli_dist (1 / 2)) (source demo_state (pos demo_state + 1)) \<noteq> 1"
    by (simp_all add: demo_state_def demo_source_def)
  have n0: "x_name 0 = ''x_0''" and n1: "x_name 1 = ''x_1''" and n2: "x_name 2 = ''x_2''"
    by code_simp+
  have l: "[0..<2] = [0, Suc 0]" by (simp add: upt_rec)
  from geometric_counts_failures [OF h1 h2 h3 h4, of 1000]
  have a: "geometric 1000 (1 / 2) None (fresh demo_state) =
     (Inr 2, \<lparr>source = demo_source, pos = 3,
       trace = [\<lparr>name = ''x_0'', fn = Bernoulli_dist (1 / 2), val = 0\<rparr>,
                \<lparr>name = ''x_1'', fn = Bernoulli_dist (1 / 2), val = 0\<rparr>,
                \<lparr>name = ''x_2'', fn = Bernoulli_dist (1 / 2), val = 1\<rparr>],
       strict = True\<rparr>)"
    by (simp add: demo_state_def n0 n1 n2 l del: draw.simps geometric.simps)
  from geometric_counts_failures [OF h1 h2 h3 h4, of 2]
  have b: "geometric 2 (1 / 2) None (fresh demo_state) =
     (Inl RecursionError, \<lparr>source = demo_source, pos = 2,
       trace = [\<lparr>name = ''x_0'', fn = Bernoulli_dist (1 / 2), val = 0\<rparr>,
                \<lparr>name = ''x_1'', fn = Bernoulli_dist (1 / 2), val = 0\<rparr>],
       strict = True\<rparr>)"
    by (simp add: demo_state_def n0 n1 l del: draw.simps geometric.simps)
  from h1 h2 h4 h5 h6 a b show ?thesis by blast
qed

text \<open>
  Claim C2. \<^verbatim>\<open>geometric(1)\<close> returns 0 on the first call in every run that can make
  the call at all (at least one frame is left): a raw uniform draw is below 1, so the
  first Bernoulli(1) trial is 1, the base case is taken and the trace holds the single
  site \<open>x_0\<close> (no recursive call was made, whatever the recursion limit).
\<close>
theorem geometric_one_returns_zero:
  assumes "source s (pos s) < 1" and "0 < frames"
  shows "geometric frames 1 None (fresh s) =
    (Inr 0, s\<lparr>pos := pos s + 1,
      trace := [\<lparr>name = ''x_0'', fn = Bernoulli_dist 1, val = 1\<rparr>]\<rparr>)"
proof -
  have fails: "\<forall>i<0. draw (Bernoulli_dist 1) (source s (pos s + i)) \<noteq> 1" by simp
  have succ: "draw (Bernoulli_dist 1) (source s (pos s + 0)) = 1"
    using assms(1) by simp
  from geometric_top_level [OF _ _ assms(2) fails succ]
  show ?thesis by (simp add: x_name_0 del: geometric.simps)
qed

theorem geometric_one_returns_zero_witness:
  "source demo_state (pos demo_state) < 1 \<and> (0::nat) < 1000 \<and>
   geometric 1000 1 None (fresh demo_state) =
     (Inr 0, \<lparr>source = demo_source, pos = 1,
       trace = [\<lparr>name = ''x_0'', fn = Bernoulli_dist 1, val = 1\<rparr>], strict = True\<rparr>)"
proof -
  have h: "source demo_state (pos demo_state) < 1"
    by (simp add: demo_state_def demo_source_def)
  have f: "(0::nat) < 1000" by simp
  from geometric_one_returns_zero [OF h f]
  have "geometric 1000 1 None (fresh demo_state) =
     (Inr 0, \<lparr>source = demo_source, pos = 1,
       trace = [\<lparr>name = ''x_0'', fn = Bernoulli_dist 1, val = 1\<rparr>], strict = True\<rparr>)"
    by (simp add: demo_state_def del: geometric.simps)
  with h f show ?thesis by blast
qed




lemma x_names_distinct: "distinct (map (\<lambda>i. x_name (int i)) [0..<n])"
proof -
  have "inj_on (\<lambda>i. x_name (int i)) (set [0..<n])"
    by (rule inj_onI) (auto dest: x_name_inj)
  then show ?thesis by (simp add: distinct_map)
qed

lemma geometric_fresh_trace:
  "\<exists>m. names (trace (snd (geometric frames p None (fresh s)))) =
      map (\<lambda>i. x_name (int i)) [0..<m] \<and>
    (\<forall>n. fst (geometric frames p None (fresh s)) = Inr n \<longrightarrow> n = int m - 1 \<and> 0 < m) \<and>
    fst (geometric frames p None (fresh s)) \<noteq> Inl DuplicateName"
proof (cases "0 \<le> p \<and> p \<le> 1")
  case False
  from geometric_top_invalid [OF False, of frames s]
  have "names (trace (snd (geometric frames p None (fresh s)))) =
      map (\<lambda>i. x_name (int i)) [0..<0]"
    and "\<forall>n. fst (geometric frames p None (fresh s)) \<noteq> Inr n"
    and "fst (geometric frames p None (fresh s)) \<noteq> Inl DuplicateName"
    by (simp_all add: fresh_def names_def del: geometric.simps)
  then show ?thesis by blast
next
  case True
  then have p: "0 \<le> p" "p \<le> 1" by simp_all
  from geometric_outcomes [OF p, of frames s] show ?thesis
  proof
    assume "\<exists>k<frames. geometric frames p None (fresh s) =
      (Inr (int k), s\<lparr>pos := pos s + k + 1,
        trace :=
          map (\<lambda>i. \<lparr>name = x_name (int i), fn = Bernoulli_dist p, val = 0\<rparr>) [0..<k] @
          [\<lparr>name = x_name (int k), fn = Bernoulli_dist p, val = 1\<rparr>]\<rparr>) \<and>
      (\<forall>i<k. draw (Bernoulli_dist p) (source s (pos s + i)) = 0) \<and>
      draw (Bernoulli_dist p) (source s (pos s + k)) = 1"
    then obtain k where g: "geometric frames p None (fresh s) =
      (Inr (int k), s\<lparr>pos := pos s + k + 1,
        trace :=
          map (\<lambda>i. \<lparr>name = x_name (int i), fn = Bernoulli_dist p, val = 0\<rparr>) [0..<k] @
          [\<lparr>name = x_name (int k), fn = Bernoulli_dist p, val = 1\<rparr>]\<rparr>)"
      by blast
    have "names (trace (snd (geometric frames p None (fresh s)))) =
        map (\<lambda>i. x_name (int i)) [0..<Suc k]"
      unfolding g by (simp add: names_def comp_def)
    moreover have "\<forall>n. fst (geometric frames p None (fresh s)) = Inr n \<longrightarrow>
        n = int (Suc k) - 1 \<and> 0 < Suc k"
      unfolding g by simp
    moreover have "fst (geometric frames p None (fresh s)) \<noteq> Inl DuplicateName"
      unfolding g by simp
    ultimately show ?thesis by blast
  next
    assume "geometric frames p None (fresh s) =
      (Inl RecursionError, s\<lparr>pos := pos s + frames,
        trace :=
          map (\<lambda>i. \<lparr>name = x_name (int i), fn = Bernoulli_dist p, val = 0\<rparr>) [0..<frames]\<rparr>) \<and>
      (\<forall>i<frames. draw (Bernoulli_dist p) (source s (pos s + i)) = 0)"
    then have g: "geometric frames p None (fresh s) =
      (Inl RecursionError, s\<lparr>pos := pos s + frames,
        trace :=
          map (\<lambda>i. \<lparr>name = x_name (int i), fn = Bernoulli_dist p, val = 0\<rparr>) [0..<frames]\<rparr>)"
      by blast
    have "names (trace (snd (geometric frames p None (fresh s)))) =
        map (\<lambda>i. x_name (int i)) [0..<frames]"
      unfolding g by (simp add: names_def comp_def)
    moreover have "\<forall>n. fst (geometric frames p None (fresh s)) \<noteq> Inr n"
      unfolding g by simp
    moreover have "fst (geometric frames p None (fresh s)) \<noteq> Inl DuplicateName"
      unfolding g by simp
    ultimately show ?thesis by blast
  qed
qed

text \<open>
  Claim C4. Within one top-level invocation of \<^verbatim>\<open>geometric(p)\<close> every sampling call
  uses its own name: the name at depth \<open>t\<close> is \<open>x_\<close> followed by the decimal rendering
  of \<open>t\<close>, names of distinct depths differ, the trace of a run that returns \<open>n\<close> holds
  exactly the names \<open>x_0, ..., x_n\<close> without repetition, no run fails with
  DuplicateName, and the trace of a run that ends in an exception holds no name twice
  either.
\<close>
theorem geometric_names_distinct:
  "x_name t = ''x_'' @ str_int t \<and>
   (x_name t1 = x_name t2) = (t1 = t2) \<and>
   (\<forall>n s'. geometric frames p None (fresh s) = (Inr n, s') \<longrightarrow>
      0 \<le> n \<and> names (trace s') = map (\<lambda>i. x_name (int i)) [0..<Suc (nat n)] \<and>
      distinct (names (trace s'))) \<and>
   fst (geometric frames p None (fresh s)) \<noteq> Inl DuplicateName \<and>
   distinct (names (trace (snd (geometric frames p None (fresh s)))))"
proof -
  from geometric_fresh_trace [of frames p s] obtain m where
    nm: "names (trace (snd (geometric frames p None (fresh s)))) =
      map (\<lambda>i. x_name (int i)) [0..<m]"
    and ret: "\<forall>n. fst (geometric frames p None (fresh s)) = Inr n \<longrightarrow> n = int m - 1 \<and> 0 < m"
    and nd: "fst (geometric frames p None (fresh s)) \<noteq> Inl DuplicateName"
    by blast
  have d: "distinct (names (trace (snd (geometric frames p None (fresh s)))))"
    unfolding nm by (rule x_names_distinct)
  have r: "\<forall>n s'. geometric frames p None (fresh s) = (Inr n, s') \<longrightarrow>
      0 \<le> n \<and> names (trace s') = map (\<lambda>i. x_name (int i)) [0..<Suc (nat n)] \<and>
      distinct (names (trace s'))"
  proof (intro allI impI)
    fix n s'
    assume g: "geometric frames p None (fresh s) = (Inr n, s')"
    from ret g have n: "n = int m - 1" and m: "0 < m" by simp_all
    from m n have sm: "Suc (nat n) = m" by simp
    from nm g have "names (trace s') = map (\<lambda>i. x_name (int i)) [0..<m]" by simp
    moreover from d g have "distinct (names (trace s'))" by simp
    moreover from m n have "0 \<le> n" by simp
    ultimately show "0 \<le> n \<and> names (trace s') = map (\<lambda>i. x_name (int i)) [0..<Suc (nat n)] \<and>
      distinct (names (trace s'))"
      unfolding sm by blast
  qed
  have i: "(x_name t1 = x_name t2) = (t1 = t2)" using x_name_inj [of t1 t2] by blast
  have x: "x_name t = ''x_'' @ str_int t" by (simp add: x_name_def)
  show ?thesis
    apply (intro conjI)
        apply (rule x)
       apply (rule i)
      apply (rule r)
     apply (rule nd)
    apply (rule d)
    done
qed

lemma demo_geometric_run:
  "geometric 1000 (1 / 2) None (fresh demo_state) =
     (Inr 2, \<lparr>source = demo_source, pos = 3,
       trace = [\<lparr>name = ''x_0'', fn = Bernoulli_dist (1 / 2), val = 0\<rparr>,
                \<lparr>name = ''x_1'', fn = Bernoulli_dist (1 / 2), val = 0\<rparr>,
                \<lparr>name = ''x_2'', fn = Bernoulli_dist (1 / 2), val = 1\<rparr>],
       strict = True\<rparr>)"
proof -
  have h1: "(0::real) \<le> 1 / 2" and h2: "(1::real) / 2 \<le> 1" by simp_all
  have h3: "\<forall>i<2. draw (Bernoulli_dist (1 / 2)) (source demo_state (pos demo_state + i)) \<noteq> 1"
    by (simp add: demo_state_def demo_source_def)
  have h4: "draw (Bernoulli_dist (1 / 2)) (source demo_state (pos demo_state + 2)) = 1"
    by (simp add: demo_state_def demo_source_def)
  have k: "(2::nat) < 1000" by simp
  have n0: "x_name 0 = ''x_0''" and n1: "x_name 1 = ''x_1''" and n2: "x_name 2 = ''x_2''"
    by code_simp+
  have l: "[0..<2] = [0, Suc 0]" by (simp add: upt_rec)
  from geometric_top_level [OF h1 h2 k h3 h4] show ?thesis
    by (simp add: demo_state_def n0 n1 n2 l del: draw.simps geometric.simps)
qed

theorem geometric_names_distinct_witness:
  "x_name 12 = ''x_12'' \<and>
   geometric 1000 (1 / 2) None (fresh demo_state) =
     (Inr 2, \<lparr>source = demo_source, pos = 3,
       trace = [\<lparr>name = ''x_0'', fn = Bernoulli_dist (1 / 2), val = 0\<rparr>,
                \<lparr>name = ''x_1'', fn = Bernoulli_dist (1 / 2), val = 0\<rparr>,
                \<lparr>name = ''x_2'', fn = Bernoulli_dist (1 / 2), val = 1\<rparr>],
       strict = True\<rparr>) \<and>
   distinct (names [\<lparr>name = ''x_0'', fn = Bernoulli_dist (1 / 2), val = 0\<rparr>,
                \<lparr>name = ''x_1'', fn = Bernoulli_dist (1 / 2), val = 0\<rparr>,
                \<lparr>name = ''x_2'', fn = Bernoulli_dist (1 / 2), val = 1\<rparr>])"
proof -
  have a: "x_name 12 = ''x_12''" by code_simp
  let ?s3 = "\<lparr>source = demo_source, pos = 3,
       trace = [\<lparr>name = ''x_0'', fn = Bernoulli_dist (1 / 2), val = 0\<rparr>,
                \<lparr>name = ''x_1'', fn = Bernoulli_dist (1 / 2), val = 0\<rparr>,
                \<lparr>name = ''x_2'', fn = Bernoulli_dist (1 / 2), val = 1\<rparr>],
       strict = True\<rparr>"
  from geometric_names_distinct [of 12 0 1 1000 "1 / 2" demo_state]
  have "\<forall>n s'. geometric 1000 (1 / 2) None (fresh demo_state) = (Inr n, s') \<longrightarrow>
      0 \<le> n \<and> names (trace s') = map (\<lambda>i. x_name (int i)) [0..<Suc (nat n)] \<and>
      distinct (names (trace s'))"
    by blast
  then have "geometric 1000 (1 / 2) None (fresh demo_state) = (Inr 2, ?s3) \<longrightarrow>
      0 \<le> (2::int) \<and> names (trace ?s3) = map (\<lambda>i. x_name (int i)) [0..<Suc (nat 2)] \<and>
      distinct (names (trace ?s3))"
    by (elim allE)
  with demo_geometric_run have "distinct (names (trace ?s3))" by blast
  then have d: "distinct (names [\<lparr>name = ''x_0'', fn = Bernoulli_dist (1 / 2), val = 0\<rparr>,
                \<lparr>name = ''x_1'', fn = Bernoulli_dist (1 / 2), val = 0\<rparr>,
                \<lparr>name = ''x_2'', fn = Bernoulli_dist (1 / 2), val = 1\<rparr>])"
    by simp
  show ?thesis
    apply (intro conjI)
      apply (rule a)
     apply (rule demo_geometric_run)
    apply (rule d)
    done
qed

subsection \<open>Errors\<close>

lemma normal_product_invalid:
  "scale \<le> 0 \<Longrightarrow> normal_product loc scale s = Inl InvalidParameter"
  by (simp add: normal_product_def Normal_def)

lemma make_normal_normal_closure_invalid:
  "make_normal_normal s0 = Inr (f, s1) \<Longrightarrow> scale \<le> 0 \<Longrightarrow> f scale s = Inl InvalidParameter"
  by (auto simp: make_normal_normal_def Normal_def sample_def Let_def normal_product_invalid
      split: if_splits)

lemma ice_cream_sales_propagates: "weather s = Inl e \<Longrightarrow> ice_cream_sales s = Inl e"
  by (simp add: ice_cream_sales_def)

lemma geometric_propagates:
  assumes "0 \<le> p" "p \<le> 1"
    and "sample (x_name t) (Bernoulli_dist p) s = Inr (x, s1)" and "x \<noteq> 1"
    and "geometric frames p (Some (t + 1)) s1 = (Inl e, s2)"
  shows "geometric (Suc frames) p (Some t) s = (Inl e, s2)"
  using assms by (subst geometric_step) (simp add: Bernoulli_def)

text \<open>
  Claim C7. A distribution built with parameters outside its valid domain fails with
  InvalidParameter, and the error reaches the caller: \<^verbatim>\<open>geometric(p)\<close> with \<open>p\<close> outside
  [0,1] fails at its first Bernoulli construction for any depth argument and any random
  source (no draw is made, the state is unchanged, no value is returned); a Normal with
  scale \<open>\<le> 0\<close> fails likewise, in \<^verbatim>\<open>normal_product\<close> and in the function returned by
  \<^verbatim>\<open>make_normal_normal\<close>. No function of the notebook catches an error: an error of
  \<^verbatim>\<open>weather\<close> is the result of \<^verbatim>\<open>ice_cream_sales\<close>, and an error of the recursive
  call of \<^verbatim>\<open>geometric\<close> is the result of the calling level.
\<close>
theorem invalid_parameter_surfaces:
  "(\<not> (0 \<le> p \<and> p \<le> 1) \<longrightarrow>
      Bernoulli p = Inl InvalidParameter \<and>
      geometric (Suc frames) p t s = (Inl InvalidParameter, s)) \<and>
   (scale \<le> 0 \<longrightarrow>
      Normal loc scale = Inl InvalidParameter \<and>
      normal_product loc scale s = Inl InvalidParameter \<and>
      (\<forall>f s0 s1. make_normal_normal s0 = Inr (f, s1) \<longrightarrow> f scale s = Inl InvalidParameter)) \<and>
   (\<forall>e. weather s = Inl e \<longrightarrow> ice_cream_sales s = Inl e) \<and>
   (\<forall>e x s1 s2 d. 0 \<le> p \<and> p \<le> 1 \<and> sample (x_name d) (Bernoulli_dist p) s = Inr (x, s1) \<and>
      x \<noteq> 1 \<and> geometric frames p (Some (d + 1)) s1 = (Inl e, s2) \<longrightarrow>
      geometric (Suc frames) p (Some d) s = (Inl e, s2))"
proof (intro conjI allI impI)
  assume a: "\<not> (0 \<le> p \<and> p \<le> 1)"
  then show "Bernoulli p = Inl InvalidParameter" by (simp add: Bernoulli_def)
  from a show "geometric (Suc frames) p t s = (Inl InvalidParameter, s)"
    by (rule geometric_invalid)
next
  assume a: "scale \<le> 0"
  then show "Normal loc scale = Inl InvalidParameter" by (simp add: Normal_def)
  from a show "normal_product loc scale s = Inl InvalidParameter"
    by (rule normal_product_invalid)
  fix f s0 s1
  assume "make_normal_normal s0 = Inr (f, s1)"
  from this a show "f scale s = Inl InvalidParameter"
    by (rule make_normal_normal_closure_invalid)
next
  fix e assume "weather s = Inl e"
  then show "ice_cream_sales s = Inl e" by (rule ice_cream_sales_propagates)
next
  fix e x s1 s2 d
  assume "0 \<le> p \<and> p \<le> 1 \<and> sample (x_name d) (Bernoulli_dist p) s = Inr (x, s1) \<and>
      x \<noteq> 1 \<and> geometric frames p (Some (d + 1)) s1 = (Inl e, s2)"
  then have "0 \<le> p" "p \<le> 1" "sample (x_name d) (Bernoulli_dist p) s = Inr (x, s1)"
    "x \<noteq> 1" "geometric frames p (Some (d + 1)) s1 = (Inl e, s2)"
    by blast+
  then show "geometric (Suc frames) p (Some d) s = (Inl e, s2)"
    by (rule geometric_propagates)
qed

theorem invalid_parameter_surfaces_witness:
  "\<not> (0 \<le> (3::real) / 2 \<and> (3::real) / 2 \<le> 1) \<and>
   geometric (Suc 999) (3 / 2) None demo_state = (Inl InvalidParameter, demo_state) \<and>
   (- 1 :: real) \<le> 0 \<and>
   Normal 0 (- 1) = Inl InvalidParameter \<and>
   normal_product 0 (- 1) demo_state = Inl InvalidParameter \<and>
   weather demo_dup_state = Inl DuplicateName \<and>
   ice_cream_sales demo_dup_state = Inl DuplicateName"
proof -
  have w: "weather demo_dup_state = Inl DuplicateName"
    by (simp add: weather_def Bernoulli_def sample_def demo_dup_state_def names_def)
  have np: "\<not> (0 \<le> (3::real) / 2 \<and> (3::real) / 2 \<le> 1)" by simp
  have sc: "(- 1 :: real) \<le> 0" by simp
  note t1 = invalid_parameter_surfaces [of "3 / 2" 999 None demo_state "- 1" 0]
  from t1 np have g: "geometric (Suc 999) (3 / 2) None demo_state =
      (Inl InvalidParameter, demo_state)"
    by blast
  from t1 sc have n: "Normal 0 (- 1) = Inl InvalidParameter"
    and n2: "normal_product 0 (- 1) demo_state = Inl InvalidParameter"
    by blast+
  from invalid_parameter_surfaces [of 0 0 None demo_dup_state 1 0] w
  have i: "ice_cream_sales demo_dup_state = Inl DuplicateName" by blast
  show ?thesis
    apply (intro conjI)
          apply (rule np)
         apply (rule g)
        apply (rule sc)
       apply (rule n)
      apply (rule n2)
     apply (rule w)
    apply (rule i)
    done
qed

subsection \<open>Determinism under a fixed seed\<close>

lemma weather_seeded:
  "weather (fresh (set_rng_seed gen seed s)) =
     Inr ((if draw (Bernoulli_dist 0.3) (gen seed 0) = 1 then ''cloudy'' else ''sunny'',
           draw (if draw (Bernoulli_dist 0.3) (gen seed 0) = 1
                 then Normal_dist 55 10 else Normal_dist 75 15) (gen seed 1)),
       s\<lparr>source := gen seed, pos := 2,
         trace :=
           [\<lparr>name = ''cloudy'', fn = Bernoulli_dist 0.3,
             val = draw (Bernoulli_dist 0.3) (gen seed 0)\<rparr>,
            \<lparr>name = ''temp'',
             fn = (if draw (Bernoulli_dist 0.3) (gen seed 0) = 1
                   then Normal_dist 55 10 else Normal_dist 75 15),
             val = draw (if draw (Bernoulli_dist 0.3) (gen seed 0) = 1
                         then Normal_dist 55 10 else Normal_dist 75 15) (gen seed 1)\<rparr>]\<rparr>)"
  by (simp add: weather_def Bernoulli_def Normal_def getitem_def sample_def Let_def names_def
      fresh_def set_rng_seed_def)

lemma ice_cream_sales_seeded:
  "ice_cream_sales (fresh (set_rng_seed gen seed s)) =
     Inr (draw (Normal_dist
            (if draw (Bernoulli_dist 0.3) (gen seed 0) \<noteq> 1 \<and>
                draw (Normal_dist 75 15) (gen seed 1) > 80 then 200 else 50) 10) (gen seed 2),
       s\<lparr>source := gen seed, pos := 3,
         trace :=
           [\<lparr>name = ''cloudy'', fn = Bernoulli_dist 0.3,
             val = draw (Bernoulli_dist 0.3) (gen seed 0)\<rparr>,
            \<lparr>name = ''temp'',
             fn = (if draw (Bernoulli_dist 0.3) (gen seed 0) = 1
                   then Normal_dist 55 10 else Normal_dist 75 15),
             val = draw (if draw (Bernoulli_dist 0.3) (gen seed 0) = 1
                         then Normal_dist 55 10 else Normal_dist 75 15) (gen seed 1)\<rparr>,
            \<lparr>name = ''ice_cream'',
             fn = Normal_dist
               (if draw (Bernoulli_dist 0.3) (gen seed 0) \<noteq> 1 \<and>
                   draw (Normal_dist 75 15) (gen seed 1) > 80 then 200 else 50) 10,
             val = draw (Normal_dist
               (if draw (Bernoulli_dist 0.3) (gen seed 0) \<noteq> 1 \<and>
                   draw (Normal_dist 75 15) (gen seed 1) > 80 then 200 else 50) 10)
               (gen seed 2)\<rparr>]\<rparr>)"
proof (cases "draw (Bernoulli_dist 0.3) (gen seed 0) = 1")
  case True
  show ?thesis
    unfolding ice_cream_sales_def weather_seeded
    using True by (simp add: Normal_def sample_def Let_def names_def del: draw.simps(1))
next
  case False
  show ?thesis
    unfolding ice_cream_sales_def weather_seeded
    using False by (simp add: Normal_def sample_def Let_def names_def del: draw.simps(1))
qed

lemma make_normal_normal_seeded:
  "make_normal_normal (fresh (set_rng_seed gen seed s)) =
    Inr (\<lambda>scale. normal_product (draw (Normal_dist 0 1) (gen seed 0)) scale,
      s\<lparr>source := gen seed, pos := 1,
        trace := [\<lparr>name = ''mu_laten'', fn = Normal_dist 0 1,
                  val = draw (Normal_dist 0 1) (gen seed 0)\<rparr>]\<rparr>)"
  by (simp add: make_normal_normal_def Normal_def sample_def Let_def names_def fresh_def
      set_rng_seed_def)

lemma geometric_trace_draws:
  "\<exists>m. pos (snd (geometric frames p None (fresh s))) = pos s + m \<and>
     trace (snd (geometric frames p None (fresh s))) =
       map (\<lambda>i. \<lparr>name = x_name (int i), fn = Bernoulli_dist p,
                  val = draw (Bernoulli_dist p) (source s (pos s + i))\<rparr>) [0..<m]"
proof (cases "0 \<le> p \<and> p \<le> 1")
  case False
  from geometric_top_invalid [OF False, of frames s]
  have "pos (snd (geometric frames p None (fresh s))) = pos s + 0"
    and "trace (snd (geometric frames p None (fresh s))) =
       map (\<lambda>i. \<lparr>name = x_name (int i), fn = Bernoulli_dist p,
                  val = draw (Bernoulli_dist p) (source s (pos s + i))\<rparr>) [0..<0]"
    by (simp_all add: fresh_def del: geometric.simps)
  then show ?thesis by blast
next
  case True
  then have p: "0 \<le> p" "p \<le> 1" by simp_all
  from geometric_outcomes [OF p, of frames s] show ?thesis
  proof
    assume "\<exists>k<frames. geometric frames p None (fresh s) =
      (Inr (int k), s\<lparr>pos := pos s + k + 1,
        trace :=
          map (\<lambda>i. \<lparr>name = x_name (int i), fn = Bernoulli_dist p, val = 0\<rparr>) [0..<k] @
          [\<lparr>name = x_name (int k), fn = Bernoulli_dist p, val = 1\<rparr>]\<rparr>) \<and>
      (\<forall>i<k. draw (Bernoulli_dist p) (source s (pos s + i)) = 0) \<and>
      draw (Bernoulli_dist p) (source s (pos s + k)) = 1"
    then obtain k where g: "geometric frames p None (fresh s) =
      (Inr (int k), s\<lparr>pos := pos s + k + 1,
        trace :=
          map (\<lambda>i. \<lparr>name = x_name (int i), fn = Bernoulli_dist p, val = 0\<rparr>) [0..<k] @
          [\<lparr>name = x_name (int k), fn = Bernoulli_dist p, val = 1\<rparr>]\<rparr>)"
      and f0: "\<forall>i<k. draw (Bernoulli_dist p) (source s (pos s + i)) = 0"
      and su: "draw (Bernoulli_dist p) (source s (pos s + k)) = 1"
      by blast
    have m1: "map (\<lambda>i. \<lparr>name = x_name (int i), fn = Bernoulli_dist p,
                  val = draw (Bernoulli_dist p) (source s (pos s + i))\<rparr>) [0..<k] =
        map (\<lambda>i. \<lparr>name = x_name (int i), fn = Bernoulli_dist p, val = 0\<rparr>) [0..<k]"
      by (rule map_cong) (simp_all add: f0 del: draw.simps)
    have t: "map (\<lambda>i. \<lparr>name = x_name (int i), fn = Bernoulli_dist p,
                  val = draw (Bernoulli_dist p) (source s (pos s + i))\<rparr>) [0..<Suc k] =
        map (\<lambda>i. \<lparr>name = x_name (int i), fn = Bernoulli_dist p, val = 0\<rparr>) [0..<k] @
          [\<lparr>name = x_name (int k), fn = Bernoulli_dist p, val = 1\<rparr>]"
      by (simp add: m1 su del: draw.simps)
    have "pos (snd (geometric frames p None (fresh s))) = pos s + Suc k"
      unfolding g by simp
    moreover have "trace (snd (geometric frames p None (fresh s))) =
       map (\<lambda>i. \<lparr>name = x_name (int i), fn = Bernoulli_dist p,
                  val = draw (Bernoulli_dist p) (source s (pos s + i))\<rparr>) [0..<Suc k]"
      unfolding g t by simp
    ultimately show ?thesis by blast
  next
    assume "geometric frames p None (fresh s) =
      (Inl RecursionError, s\<lparr>pos := pos s + frames,
        trace :=
          map (\<lambda>i. \<lparr>name = x_name (int i), fn = Bernoulli_dist p, val = 0\<rparr>) [0..<frames]\<rparr>) \<and>
      (\<forall>i<frames. draw (Bernoulli_dist p) (source s (pos s + i)) = 0)"
    then have g: "geometric frames p None (fresh s) =
      (Inl RecursionError, s\<lparr>pos := pos s + frames,
        trace :=
          map (\<lambda>i. \<lparr>name = x_name (int i), fn = Bernoulli_dist p, val = 0\<rparr>) [0..<frames]\<rparr>)"
      and f0: "\<forall>i<frames. draw (Bernoulli_dist p) (source s (pos s + i)) = 0"
      by blast+
    have m1: "map (\<lambda>i. \<lparr>name = x_name (int i), fn = Bernoulli_dist p,
                  val = draw (Bernoulli_dist p) (source s (pos s + i))\<rparr>) [0..<frames] =
        map (\<lambda>i. \<lparr>name = x_name (int i), fn = Bernoulli_dist p, val = 0\<rparr>) [0..<frames]"
      by (rule map_cong) (simp_all add: f0 del: draw.simps)
    have "pos (snd (geometric frames p None (fresh s))) = pos s + frames"
      unfolding g by simp
    moreover have "trace (snd (geometric frames p None (fresh s))) =
       map (\<lambda>i. \<lparr>name = x_name (int i), fn = Bernoulli_dist p,
                  val = draw (Bernoulli_dist p) (source s (pos s + i))\<rparr>) [0..<frames]"
      unfolding g m1 by simp
    ultimately show ?thesis by blast
  qed
qed

lemma geometric_depends_on_source:
  assumes src: "source a = source b" and ps: "pos a = pos b"
  shows "map_prod id trace (geometric frames p None (fresh a)) =
    map_prod id trace (geometric frames p None (fresh b))"
proof (cases "0 \<le> p \<and> p \<le> 1")
  case False
  show ?thesis
    unfolding geometric_top_invalid [OF False] by (simp add: fresh_def)
next
  case True
  then have p: "0 \<le> p" "p \<le> 1" by simp_all
  from first_success_cases [of frames "\<lambda>i. draw (Bernoulli_dist p) (source a (pos a + i)) = 1"]
  show ?thesis
  proof
    assume "\<exists>k<frames. (\<forall>i<k. draw (Bernoulli_dist p) (source a (pos a + i)) \<noteq> 1) \<and>
        draw (Bernoulli_dist p) (source a (pos a + k)) = 1"
    then obtain k where k: "k < frames"
      and f: "\<forall>i<k. draw (Bernoulli_dist p) (source a (pos a + i)) \<noteq> 1"
      and su: "draw (Bernoulli_dist p) (source a (pos a + k)) = 1"
      by blast
    from f have f': "\<forall>i<k. draw (Bernoulli_dist p) (source b (pos b + i)) \<noteq> 1"
      unfolding src ps .
    from su have su': "draw (Bernoulli_dist p) (source b (pos b + k)) = 1"
      unfolding src ps .
    show ?thesis
      unfolding geometric_top_level [OF p k f su] geometric_top_level [OF p k f' su']
      by simp
  next
    assume f: "\<forall>i<frames. draw (Bernoulli_dist p) (source a (pos a + i)) \<noteq> 1"
    then have f': "\<forall>i<frames. draw (Bernoulli_dist p) (source b (pos b + i)) \<noteq> 1"
      unfolding src ps .
    show ?thesis
      unfolding geometric_top_exhausted [OF p f] geometric_top_exhausted [OF p f']
      by simp
  qed
qed

text \<open>
  Claim C5. Two executions that each start by seeding the random source with the same
  seed produce the same named draws and the same return value, whatever the two
  processes did before: the states \<open>s1\<close> and \<open>s2\<close> before seeding are unrelated (other
  sources, other positions, other traces, other duplicate policies). For each of
  \<^verbatim>\<open>weather\<close>, \<^verbatim>\<open>ice_cream_sales\<close>, \<^verbatim>\<open>geometric\<close> and \<^verbatim>\<open>make_normal_normal\<close> the two
  runs agree on the outcome (value or exception) and on the trace. The draws are those
  of the seed's stream, in order: \<^verbatim>\<open>weather\<close> records \<open>cloudy\<close> from raw draw 0 and
  \<open>temp\<close> from raw draw 1, \<^verbatim>\<open>ice_cream_sales\<close> adds \<open>ice_cream\<close> from raw draw 2,
  \<^verbatim>\<open>make_normal_normal\<close> records \<open>mu_laten\<close> from raw draw 0, and \<^verbatim>\<open>geometric\<close>
  records \<open>x_i\<close> from raw draw \<open>i\<close> for each of the draws it makes.
\<close>
theorem seeded_runs_agree:
  "map_sum id (map_prod id trace) (weather (fresh (set_rng_seed gen seed s1))) =
     map_sum id (map_prod id trace) (weather (fresh (set_rng_seed gen seed s2))) \<and>
   map_sum id (map_prod id trace) (ice_cream_sales (fresh (set_rng_seed gen seed s1))) =
     map_sum id (map_prod id trace) (ice_cream_sales (fresh (set_rng_seed gen seed s2))) \<and>
   map_prod id trace (geometric frames p None (fresh (set_rng_seed gen seed s1))) =
     map_prod id trace (geometric frames p None (fresh (set_rng_seed gen seed s2))) \<and>
   map_sum id (map_prod id trace) (make_normal_normal (fresh (set_rng_seed gen seed s1))) =
     map_sum id (map_prod id trace) (make_normal_normal (fresh (set_rng_seed gen seed s2))) \<and>
   map_sum id (map_prod id trace) (weather (fresh (set_rng_seed gen seed s1))) =
     Inr ((if draw (Bernoulli_dist 0.3) (gen seed 0) = 1 then ''cloudy'' else ''sunny'',
           draw (if draw (Bernoulli_dist 0.3) (gen seed 0) = 1
                 then Normal_dist 55 10 else Normal_dist 75 15) (gen seed 1)),
          [\<lparr>name = ''cloudy'', fn = Bernoulli_dist 0.3,
            val = draw (Bernoulli_dist 0.3) (gen seed 0)\<rparr>,
           \<lparr>name = ''temp'',
            fn = (if draw (Bernoulli_dist 0.3) (gen seed 0) = 1
                  then Normal_dist 55 10 else Normal_dist 75 15),
            val = draw (if draw (Bernoulli_dist 0.3) (gen seed 0) = 1
                        then Normal_dist 55 10 else Normal_dist 75 15) (gen seed 1)\<rparr>]) \<and>
   map_sum id (map_prod id trace) (ice_cream_sales (fresh (set_rng_seed gen seed s1))) =
     Inr (draw (Normal_dist
            (if draw (Bernoulli_dist 0.3) (gen seed 0) \<noteq> 1 \<and>
                draw (Normal_dist 75 15) (gen seed 1) > 80 then 200 else 50) 10) (gen seed 2),
          [\<lparr>name = ''cloudy'', fn = Bernoulli_dist 0.3,
            val = draw (Bernoulli_dist 0.3) (gen seed 0)\<rparr>,
           \<lparr>name = ''temp'',
            fn = (if draw (Bernoulli_dist 0.3) (gen seed 0) = 1
                  then Normal_dist 55 10 else Normal_dist 75 15),
            val = draw (if draw (Bernoulli_dist 0.3) (gen seed 0) = 1
                        then Normal_dist 55 10 else Normal_dist 75 15) (gen seed 1)\<rparr>,
           \<lparr>name = ''ice_cream'',
            fn = Normal_dist
              (if draw (Bernoulli_dist 0.3) (gen seed 0) \<noteq> 1 \<and>
                  draw (Normal_dist 75 15) (gen seed 1) > 80 then 200 else 50) 10,
            val = draw (Normal_dist
              (if draw (Bernoulli_dist 0.3) (gen seed 0) \<noteq> 1 \<and>
                  draw (Normal_dist 75 15) (gen seed 1) > 80 then 200 else 50) 10)
              (gen seed 2)\<rparr>]) \<and>
   map_sum id (map_prod id trace) (make_normal_normal (fresh (set_rng_seed gen seed s1))) =
     Inr (\<lambda>scale. normal_product (draw (Normal_dist 0 1) (gen seed 0)) scale,
          [\<lparr>name = ''mu_laten'', fn = Normal_dist 0 1,
            val = draw (Normal_dist 0 1) (gen seed 0)\<rparr>]) \<and>
   (\<exists>m. pos (snd (geometric frames p None (fresh (set_rng_seed gen seed s1)))) = m \<and>
      trace (snd (geometric frames p None (fresh (set_rng_seed gen seed s1)))) =
        map (\<lambda>i. \<lparr>name = x_name (int i), fn = Bernoulli_dist p,
                   val = draw (Bernoulli_dist p) (gen seed i)\<rparr>) [0..<m])"
proof -
  have w: "map_sum id (map_prod id trace) (weather (fresh (set_rng_seed gen seed s1))) =
     map_sum id (map_prod id trace) (weather (fresh (set_rng_seed gen seed s2)))"
    unfolding weather_seeded by simp
  have i: "map_sum id (map_prod id trace) (ice_cream_sales (fresh (set_rng_seed gen seed s1))) =
     map_sum id (map_prod id trace) (ice_cream_sales (fresh (set_rng_seed gen seed s2)))"
    unfolding ice_cream_sales_seeded by simp
  have g: "map_prod id trace (geometric frames p None (fresh (set_rng_seed gen seed s1))) =
     map_prod id trace (geometric frames p None (fresh (set_rng_seed gen seed s2)))"
    by (rule geometric_depends_on_source) (simp_all add: set_rng_seed_def)
  have m: "map_sum id (map_prod id trace) (make_normal_normal (fresh (set_rng_seed gen seed s1))) =
     map_sum id (map_prod id trace) (make_normal_normal (fresh (set_rng_seed gen seed s2)))"
    unfolding make_normal_normal_seeded by simp
  have wp: "map_sum id (map_prod id trace) (weather (fresh (set_rng_seed gen seed s1))) =
     Inr ((if draw (Bernoulli_dist 0.3) (gen seed 0) = 1 then ''cloudy'' else ''sunny'',
           draw (if draw (Bernoulli_dist 0.3) (gen seed 0) = 1
                 then Normal_dist 55 10 else Normal_dist 75 15) (gen seed 1)),
          [\<lparr>name = ''cloudy'', fn = Bernoulli_dist 0.3,
            val = draw (Bernoulli_dist 0.3) (gen seed 0)\<rparr>,
           \<lparr>name = ''temp'',
            fn = (if draw (Bernoulli_dist 0.3) (gen seed 0) = 1
                  then Normal_dist 55 10 else Normal_dist 75 15),
            val = draw (if draw (Bernoulli_dist 0.3) (gen seed 0) = 1
                        then Normal_dist 55 10 else Normal_dist 75 15) (gen seed 1)\<rparr>])"
    unfolding weather_seeded by simp
  have ip: "map_sum id (map_prod id trace) (ice_cream_sales (fresh (set_rng_seed gen seed s1))) =
     Inr (draw (Normal_dist
            (if draw (Bernoulli_dist 0.3) (gen seed 0) \<noteq> 1 \<and>
                draw (Normal_dist 75 15) (gen seed 1) > 80 then 200 else 50) 10) (gen seed 2),
          [\<lparr>name = ''cloudy'', fn = Bernoulli_dist 0.3,
            val = draw (Bernoulli_dist 0.3) (gen seed 0)\<rparr>,
           \<lparr>name = ''temp'',
            fn = (if draw (Bernoulli_dist 0.3) (gen seed 0) = 1
                  then Normal_dist 55 10 else Normal_dist 75 15),
            val = draw (if draw (Bernoulli_dist 0.3) (gen seed 0) = 1
                        then Normal_dist 55 10 else Normal_dist 75 15) (gen seed 1)\<rparr>,
           \<lparr>name = ''ice_cream'',
            fn = Normal_dist
              (if draw (Bernoulli_dist 0.3) (gen seed 0) \<noteq> 1 \<and>
                  draw (Normal_dist 75 15) (gen seed 1) > 80 then 200 else 50) 10,
            val = draw (Normal_dist
              (if draw (Bernoulli_dist 0.3) (gen seed 0) \<noteq> 1 \<and>
                  draw (Normal_dist 75 15) (gen seed 1) > 80 then 200 else 50) 10)
              (gen seed 2)\<rparr>])"
    unfolding ice_cream_sales_seeded by simp
  have mp: "map_sum id (map_prod id trace) (make_normal_normal (fresh (set_rng_seed gen seed s1))) =
     Inr (\<lambda>scale. normal_product (draw (Normal_dist 0 1) (gen seed 0)) scale,
          [\<lparr>name = ''mu_laten'', fn = Normal_dist 0 1,
            val = draw (Normal_dist 0 1) (gen seed 0)\<rparr>])"
    unfolding make_normal_normal_seeded by simp
  from geometric_trace_draws [of frames p "set_rng_seed gen seed s1"]
  have gp: "\<exists>m. pos (snd (geometric frames p None (fresh (set_rng_seed gen seed s1)))) = m \<and>
      trace (snd (geometric frames p None (fresh (set_rng_seed gen seed s1)))) =
        map (\<lambda>i. \<lparr>name = x_name (int i), fn = Bernoulli_dist p,
                   val = draw (Bernoulli_dist p) (gen seed i)\<rparr>) [0..<m]"
    by (simp add: set_rng_seed_def del: geometric.simps draw.simps)
  show ?thesis
    apply (intro conjI)
           apply (rule w)
          apply (rule i)
         apply (rule g)
        apply (rule m)
       apply (rule wp)
      apply (rule ip)
     apply (rule mp)
    apply (rule gp)
    done
qed

end
